theory Spec2Isabelle
  imports Main "HOL-Library.Multiset"
begin

section \<open>Values and errors\<close>

text \<open>
  The exceptions the library raises or lets through.  The payload of \<open>TypeError\<close> is the
  message the source builds.
\<close>

datatype error = TypeError string | ValueError | KeyError | AttributeError | IndexError

text \<open>
  \<open>datetime.datetime\<close>: the seven components the format string
  \<open>%Y-%m-%d %H:%M:%S.%f\<close> of the source reads and writes, and \<open>tzinfo\<close>: \<open>None\<close> for a
  naive datetime, the offset from UTC in minutes for an aware one.
\<close>

record datetime =
  year :: nat
  month :: nat
  day :: nat
  hour :: nat
  minute :: nat
  second :: nat
  microsecond :: nat
  tzinfo :: "int option"

definition valid_datetime :: "datetime \<Rightarrow> bool" where
  "valid_datetime d \<longleftrightarrow>
     1 \<le> year d \<and> year d \<le> 9999 \<and> 1 \<le> month d \<and> month d \<le> 12 \<and>
     1 \<le> day d \<and> day d \<le> 31 \<and> hour d < 24 \<and> minute d < 60 \<and> second d < 60 \<and>
     microsecond d < 1000000 \<and>
     (case tzinfo d of None \<Rightarrow> True | Some off \<Rightarrow> - 1440 < off \<and> off < 1440)"

definition datetime_min :: datetime where
  "datetime_min = \<lparr>year = 1, month = 1, day = 1, hour = 0, minute = 0, second = 0,
     microsecond = 0, tzinfo = None\<rparr>"

text \<open>
  The Python values the fields handle.  A \<open>Decimal\<close> is carried by its string form; any
  other object (a list, a function) is \<open>VOther\<close>, carried by its string form too.
\<close>

type_synonym decimal = string

datatype pyval =
    VNone
  | VInt int
  | VStr string
  | VDecimal decimal
  | VDateTime datetime
  | VOther string

section \<open>Formatting and parsing of numbers\<close>

text \<open>The decimal digit for \<open>d\<close>, and the value of a character that is a decimal digit.\<close>

definition digit_char :: "nat \<Rightarrow> char" where
  "digit_char d = ''0123456789'' ! (d mod 10)"

definition digit_val :: "char \<Rightarrow> nat option" where
  "digit_val c = map_of (zip ''0123456789'' [0, 1, 2, 3, 4, 5, 6, 7, 8, 9]) c"

text \<open>\<open>zpad w k\<close>: the \<open>w\<close> low decimal digits of \<open>k\<close>, zero-padded (\<open>%0wd\<close> for \<open>k < 10 ^ w\<close>).\<close>

fun zpad :: "nat \<Rightarrow> nat \<Rightarrow> string" where
  "zpad 0 k = []"
| "zpad (Suc w) k = zpad w (k div 10) @ [digit_char (k mod 10)]"

text \<open>\<open>parse_digits acc s\<close>: the number a string of decimal digits denotes, most significant first.\<close>

fun parse_digits :: "nat \<Rightarrow> string \<Rightarrow> nat option" where
  "parse_digits acc [] = Some acc"
| "parse_digits acc (c # cs) =
     (case digit_val c of None \<Rightarrow> None | Some d \<Rightarrow> parse_digits (10 * acc + d) cs)"

text \<open>Decimal digits of a natural number without padding, as \<open>%d\<close> prints them.\<close>

fun nat_digits :: "nat \<Rightarrow> nat \<Rightarrow> string" where
  "nat_digits 0 k = []"
| "nat_digits (Suc fuel) k =
     (if k < 10 then [digit_char k] else nat_digits fuel (k div 10) @ [digit_char (k mod 10)])"

definition show_nat :: "nat \<Rightarrow> string" where
  "show_nat k = nat_digits (Suc k) k"

definition show_int :: "int \<Rightarrow> string" where
  "show_int i = (if i < 0 then CHR ''-'' # show_nat (nat (- i)) else show_nat (nat i))"

section \<open>The timestamp format\<close>

text \<open>
  Modelled from the spec: \<open>datetime.strftime\<close> and \<open>datetime.strptime\<close> belong to the
  standard library of Python 2, which the source is written for, not to this repository.
  The source calls both with the format \<open>%Y-%m-%d %H:%M:%S.%f\<close>, which the spec describes
  as the fixed-width timestamp string \<open>YYYY-MM-DD HH:MM:SS.ffffff\<close>.  The format has no
  directive for the offset, so \<open>strftime\<close> writes nothing of \<open>tzinfo\<close>, and Python 2's
  \<open>strftime\<close> refuses a year before 1900 with a \<open>ValueError\<close>.  \<open>strptime\<close> reads a string
  of exactly that shape into a naive datetime and fails with \<open>ValueError\<close> on any other.
\<close>

definition timestamp_string :: "datetime \<Rightarrow> string" where
  "timestamp_string d =
     zpad 4 (year d) @ ''-'' @ zpad 2 (month d) @ ''-'' @ zpad 2 (day d) @ '' '' @
     zpad 2 (hour d) @ '':'' @ zpad 2 (minute d) @ '':'' @ zpad 2 (second d) @ ''.'' @
     zpad 6 (microsecond d)"

definition strftime :: "datetime \<Rightarrow> error + string" where
  "strftime d = (if year d < 1900 then Inl ValueError else Inr (timestamp_string d))"

definition strptime :: "string \<Rightarrow> error + datetime" where
  "strptime s =
     (if length s = 26 \<and> s ! 4 = CHR ''-'' \<and> s ! 7 = CHR ''-'' \<and> s ! 10 = CHR '' '' \<and>
         s ! 13 = CHR '':'' \<and> s ! 16 = CHR '':'' \<and> s ! 19 = CHR ''.''
      then
        (case (parse_digits 0 (take 4 s), parse_digits 0 (take 2 (drop 5 s)),
               parse_digits 0 (take 2 (drop 8 s)), parse_digits 0 (take 2 (drop 11 s)),
               parse_digits 0 (take 2 (drop 14 s)), parse_digits 0 (take 2 (drop 17 s)),
               parse_digits 0 (drop 20 s)) of
           (Some y, Some mo, Some d, Some h, Some mi, Some se, Some us) \<Rightarrow>
             (let t = \<lparr>year = y, month = mo, day = d, hour = h, minute = mi, second = se,
                        microsecond = us, tzinfo = None\<rparr>
              in if valid_datetime t then Inr t else Inl ValueError)
         | _ \<Rightarrow> Inl ValueError)
      else Inl ValueError)"

text \<open>\<open>value.replace(tzinfo=None)\<close> for a datetime; any other value is left as it is.\<close>

definition naive :: "pyval \<Rightarrow> pyval" where
  "naive v = (case v of VDateTime d \<Rightarrow> VDateTime (d\<lparr>tzinfo := None\<rparr>) | _ \<Rightarrow> v)"

section \<open>Fields\<close>

definition bind_err :: "error + 'a \<Rightarrow> ('a \<Rightarrow> error + 'b) \<Rightarrow> error + 'b" where
  "bind_err m f = (case m of Inl e \<Rightarrow> Inl e | Inr x \<Rightarrow> f x)"

text \<open>
  The four subclasses of \<open>Field\<close>.  \<open>column_type\<close> is the class's fixed storage type.
\<close>

datatype field_kind = KInteger | KDecimal | KText | KDateTime

fun column_type :: "field_kind \<Rightarrow> string" where
  "column_type KInteger = ''INTEGER''"
| "column_type KDecimal = ''NUMERIC''"
| "column_type KText = ''TEXT''"
| "column_type KDateTime = ''TEXT''"

text \<open>
  A \<open>Field\<close> object.  \<open>column_name\<close> and \<open>attr\<close> are \<open>None\<close> until the metaclass binds
  them; \<open>auto_now\<close> and \<open>auto_now_add\<close> are read by \<open>FieldDateTime\<close> only.
\<close>

record field =
  kind :: field_kind
  column_name :: "string option"
  is_key :: bool
  is_unique :: bool
  allow_null :: bool
  check :: bool
  default_value :: pyval
  attr :: "string option"
  auto_now :: bool
  auto_now_add :: bool

text \<open>
  The keyword arguments of a field constructor; \<open>None\<close> is an argument that was not passed.
\<close>

record kwargs =
  kw_column_name :: "string option"
  kw_is_key :: "bool option"
  kw_is_unique :: "bool option"
  kw_allow_null :: "bool option"
  kw_check :: "bool option"
  kw_default :: "pyval option"

definition no_kwargs :: kwargs where
  "no_kwargs = \<lparr>kw_column_name = None, kw_is_key = None, kw_is_unique = None,
     kw_allow_null = None, kw_check = None, kw_default = None\<rparr>"

definition or_default :: "'a option \<Rightarrow> 'a \<Rightarrow> 'a" where
  "or_default x d = (case x of None \<Rightarrow> d | Some v \<Rightarrow> v)"

text \<open>\<open>Field.__init__\<close> with its defaults, for the subclass \<open>k\<close>.\<close>

definition Field_init :: "field_kind \<Rightarrow> bool \<Rightarrow> bool \<Rightarrow> kwargs \<Rightarrow> field" where
  "Field_init k an ana kw =
     \<lparr>kind = k, column_name = kw_column_name kw,
      is_key = or_default (kw_is_key kw) False,
      is_unique = or_default (kw_is_unique kw) False,
      allow_null = or_default (kw_allow_null kw) True,
      check = or_default (kw_check kw) False,
      default_value = or_default (kw_default kw) VNone,
      attr = None, auto_now = an, auto_now_add = ana\<rparr>"

definition FieldInteger :: "kwargs \<Rightarrow> field" where
  "FieldInteger kw =
     Field_init KInteger False False
       (if kw_default kw = None then kw\<lparr>kw_default := Some (VInt 0)\<rparr> else kw)"

definition FieldDecimal :: "kwargs \<Rightarrow> field" where
  "FieldDecimal kw =
     Field_init KDecimal False False
       (if kw_default kw = None then kw\<lparr>kw_default := Some (VDecimal ''0'')\<rparr> else kw)"

definition FieldText :: "kwargs \<Rightarrow> field" where
  "FieldText kw =
     Field_init KText False False
       (if kw_default kw = None \<and> kw_allow_null kw \<noteq> None
        then (if \<not> or_default (kw_allow_null kw) True then kw\<lparr>kw_default := Some (VStr [])\<rparr>
              else kw)
        else kw)"

definition FieldDateTime :: "bool \<Rightarrow> bool \<Rightarrow> kwargs \<Rightarrow> field" where
  "FieldDateTime an ana kw =
     (let kw1 = kw\<lparr>kw_allow_null := Some False\<rparr>;
          kw2 = (if kw_default kw1 = None
                 then kw1\<lparr>kw_default := Some (VDateTime datetime_min)\<rparr> else kw1)
      in Field_init KDateTime an ana kw2)"

text \<open>
  What the interpreter provides.  \<open>int(value)\<close> and \<open>Decimal(value)\<close>: an int converts
  to itself and a Decimal to itself; on every other value the two conversions are
  parameters.  The iteration order of dictionaries: Python 2 iterates a dictionary in the
  order of the slots of its hash table, so \<open>name_slot ks k\<close> is the rank of the key \<open>k\<close> in
  a class dictionary whose keys are \<open>ks\<close>, and \<open>key_slot ks k\<close> the same for the \<open>where\<close>
  and \<open>data\<close> dictionaries of a query.  The fields and the queries are verified for every
  behaviour of the four.
\<close>

record interpreter =
  py_int :: "pyval \<Rightarrow> error + int"
  py_Decimal :: "pyval \<Rightarrow> error + decimal"
  name_slot :: "string list \<Rightarrow> string \<Rightarrow> nat"
  key_slot :: "string option list \<Rightarrow> string option \<Rightarrow> nat"

text \<open>
  \<open>str(d)\<close> of a datetime: the microseconds are printed only when they are not zero, and
  the offset of an aware datetime follows as \<open>+HH:MM\<close> or \<open>-HH:MM\<close>.
\<close>

definition offset_str :: "int option \<Rightarrow> string" where
  "offset_str tz =
     (case tz of
        None \<Rightarrow> []
      | Some off \<Rightarrow>
          (if off < 0 then ''-'' else ''+'') @ zpad 2 (nat \<bar>off\<bar> div 60) @ '':'' @
          zpad 2 (nat \<bar>off\<bar> mod 60))"

definition datetime_str :: "datetime \<Rightarrow> string" where
  "datetime_str d =
     zpad 4 (year d) @ ''-'' @ zpad 2 (month d) @ ''-'' @ zpad 2 (day d) @ '' '' @
     zpad 2 (hour d) @ '':'' @ zpad 2 (minute d) @ '':'' @ zpad 2 (second d) @
     (if microsecond d = 0 then [] else ''.'' @ zpad 6 (microsecond d)) @
     offset_str (tzinfo d)"

text \<open>\<open>"%s" % value\<close>.\<close>

fun py_format_s :: "pyval \<Rightarrow> string" where
  "py_format_s VNone = ''None''"
| "py_format_s (VInt i) = show_int i"
| "py_format_s (VStr s) = s"
| "py_format_s (VDecimal s) = s"
| "py_format_s (VDateTime d) = datetime_str d"
| "py_format_s (VOther s) = s"

definition FieldInteger_validate :: "interpreter \<Rightarrow> pyval \<Rightarrow> error + pyval" where
  "FieldInteger_validate b v =
     (case v of VInt i \<Rightarrow> Inr (VInt i) | _ \<Rightarrow> bind_err (py_int b v) (\<lambda>i. Inr (VInt i)))"

definition FieldDecimal_validate :: "interpreter \<Rightarrow> pyval \<Rightarrow> error + pyval" where
  "FieldDecimal_validate b v =
     (case v of VDecimal d \<Rightarrow> Inr (VDecimal d)
      | _ \<Rightarrow> bind_err (py_Decimal b v) (\<lambda>d. Inr (VDecimal d)))"

definition FieldText_validate :: "pyval \<Rightarrow> error + pyval" where
  "FieldText_validate v = Inr (VStr (py_format_s v))"

definition FieldDateTime_validate :: "pyval \<Rightarrow> error + pyval" where
  "FieldDateTime_validate v =
     (case v of VDateTime d \<Rightarrow> Inr v
      | _ \<Rightarrow> Inl (TypeError
          ''Attempted to assign a non datetime value to a datetime field.''))"

definition validate :: "interpreter \<Rightarrow> field \<Rightarrow> pyval \<Rightarrow> error + pyval" where
  "validate b f v =
     (case kind f of
        KInteger \<Rightarrow> FieldInteger_validate b v
      | KDecimal \<Rightarrow> FieldDecimal_validate b v
      | KText \<Rightarrow> FieldText_validate v
      | KDateTime \<Rightarrow> FieldDateTime_validate v)"

text \<open>
  \<open>to_db_format\<close>.  \<open>now\<close> is what \<open>datetime.datetime.now()\<close> returns when it is called.
  \<open>strftime\<close> on a value that is no datetime is a \<open>TypeError\<close> of the interpreter.
\<close>

definition to_db_format :: "datetime \<Rightarrow> field \<Rightarrow> pyval \<Rightarrow> bool \<Rightarrow> bool \<Rightarrow> error + pyval" where
  "to_db_format now f v first_time is_query =
     (case kind f of
        KDateTime \<Rightarrow>
          (let v' = (if is_query \<and> (auto_now f \<or> (first_time \<and> auto_now_add f))
                     then VDateTime now else v)
           in case v' of
                VDateTime d \<Rightarrow> bind_err (strftime d) (\<lambda>s. Inr (VStr s))
              | _ \<Rightarrow> Inl (TypeError ''strftime requires a datetime.datetime object''))
      | _ \<Rightarrow> Inr v)"

definition from_db_format :: "field \<Rightarrow> pyval \<Rightarrow> error + pyval" where
  "from_db_format f v =
     (case kind f of
        KDateTime \<Rightarrow>
          (case v of
             VStr s \<Rightarrow> bind_err (strptime s) (\<lambda>d. Inr (VDateTime d))
           | _ \<Rightarrow> Inl (TypeError ''strptime() argument 1 must be string''))
      | _ \<Rightarrow> Inr v)"

text \<open>\<open>from_db_format(to_db_format(x, first_time, False))\<close>.\<close>

definition storage_roundtrip :: "datetime \<Rightarrow> field \<Rightarrow> bool \<Rightarrow> pyval \<Rightarrow> error + pyval" where
  "storage_roundtrip now f first_time x =
     bind_err (to_db_format now f x first_time False) (from_db_format f)"

text \<open>
  \<open>isinstance(default, Number)\<close>: integers and Decimals are numbers (\<open>VOther\<close> stands for
  objects that are not).
\<close>

fun is_Number :: "pyval \<Rightarrow> bool" where
  "is_Number (VInt i) = True"
| "is_Number (VDecimal d) = True"
| "is_Number v = False"

text \<open>
  \<open>_get_column_statement\<close>.  \<open>statement += default\<close> adds a number to a string, which the
  interpreter refuses with a \<open>TypeError\<close>.
\<close>

definition get_column_statement :: "datetime \<Rightarrow> field \<Rightarrow> error + string" where
  "get_column_statement now f =
     (let statement = py_format_s (case column_name f of None \<Rightarrow> VNone | Some n \<Rightarrow> VStr n)
                        @ '' '' @ column_type (kind f)
      in if is_key f then Inr (statement @ '' PRIMARY KEY'')
         else if \<not> allow_null f then Inr (statement @ '' NOT NULL'')
         else if is_unique f then Inr (statement @ '' UNIQUE'')
         else if check f then Inr (statement @ '' CHECK'')
         else
           bind_err (to_db_format now f (default_value f) False False) (\<lambda>default.
             if is_Number default
             then Inl (TypeError ''cannot concatenate 'str' and number objects'')
             else if default = VNone
             then Inr (statement @ '' DEFAULT '' @ py_format_s default)
             else Inr (statement @ '' DEFAULT '' @ ''\"'' @ py_format_s default @ ''\"'')))"

section \<open>Dictionaries and strings\<close>

text \<open>
  A dictionary is the list of its items in iteration order, with distinct keys.  Storing
  under a key that is present replaces the value in place.  Storing under a new key puts
  the item where the hash table has a free slot, which may be anywhere, and may move the
  other items when the table grows: the items are then iterated by the rank \<open>slot ks k\<close>
  the interpreter gives each key \<open>k\<close> among all the keys \<open>ks\<close>, items of equal rank in the
  order they had.  Every order of the items is the order of some \<open>slot\<close>.
\<close>

fun dict_replace :: "'k \<Rightarrow> 'v \<Rightarrow> ('k \<times> 'v) list \<Rightarrow> ('k \<times> 'v) list" where
  "dict_replace k v [] = []"
| "dict_replace k v (p # ps) = (if fst p = k then (k, v) # ps else p # dict_replace k v ps)"

definition dict_set ::
  "('k list \<Rightarrow> 'k \<Rightarrow> nat) \<Rightarrow> 'k \<Rightarrow> 'v \<Rightarrow> ('k \<times> 'v) list \<Rightarrow> ('k \<times> 'v) list" where
  "dict_set slot k v d =
     (if k \<in> fst ` set d then dict_replace k v d
      else sort_key (\<lambda>p. slot (map fst (d @ [(k, v)])) (fst p)) (d @ [(k, v)]))"

text \<open>\<open>dict(items)\<close>: the items are stored one after the other.\<close>

fun dict_of_items ::
  "('k list \<Rightarrow> 'k \<Rightarrow> nat) \<Rightarrow> ('k \<times> 'v) list \<Rightarrow> ('k \<times> 'v) list \<Rightarrow> ('k \<times> 'v) list" where
  "dict_of_items slot acc [] = acc"
| "dict_of_items slot acc ((k, v) # kvs) = dict_of_items slot (dict_set slot k v acc) kvs"

text \<open>
  The \<open>__dict__\<close> of an instance is only read and written by key, never iterated: the
  order of its list has no meaning, and a new key is put at the end.
\<close>

fun store_attr :: "'k \<Rightarrow> 'v \<Rightarrow> ('k \<times> 'v) list \<Rightarrow> ('k \<times> 'v) list" where
  "store_attr k v [] = [(k, v)]"
| "store_attr k v (p # ps) = (if fst p = k then (k, v) # ps else p # store_attr k v ps)"

text \<open>\<open>sep.join(xs)\<close>.\<close>

fun join :: "string \<Rightarrow> string list \<Rightarrow> string" where
  "join sep [] = []"
| "join sep [x] = x"
| "join sep (x # y # ys) = x @ sep @ join sep (y # ys)"

definition upper_char :: "char \<Rightarrow> char" where
  "upper_char c =
     (case map_of (zip ''abcdefghijklmnopqrstuvwxyz'' ''ABCDEFGHIJKLMNOPQRSTUVWXYZ'') c of
        None \<Rightarrow> c | Some u \<Rightarrow> u)"

definition py_upper :: "string \<Rightarrow> string" where
  "py_upper s = map upper_char s"

text \<open>
  A dictionary key of the query builder: a column name, or \<open>None\<close> (the column name of a
  field the metaclass never bound).  \<open>key_str\<close> is \<open>"%s" % key\<close>.
\<close>

type_synonym key = "string option"

definition key_str :: "key \<Rightarrow> string" where
  "key_str k = (case k of None \<Rightarrow> ''None'' | Some s \<Rightarrow> s)"

definition str_keys :: "(string \<times> 'v) list \<Rightarrow> (key \<times> 'v) list" where
  "str_keys kvs = map (\<lambda>(k, v). (Some k, v)) kvs"

section \<open>The metaclass\<close>

datatype member = MField field | MOther pyval

text \<open>
  A model class: the static variables the metaclass adds, and the class dictionary
  (\<open>__dict__\<close>) in iteration order.
\<close>

record model_class =
  tablename :: string
  columns :: "string list"
  primary_key :: string
  members :: "(string \<times> member) list"

record meta_state =
  ms_columns :: "string list"
  ms_primary_key :: "string option"
  ms_found_primary :: bool
  ms_dct :: "(string \<times> member) list"

text \<open>
  What the loop does to a field found under the attribute \<open>a\<close>: it stores the attribute
  name in the field, and the attribute name becomes the column name if none was given.
\<close>

definition bind_field :: "string \<Rightarrow> field \<Rightarrow> field" where
  "bind_field a f =
     f\<lparr>attr := Some a,
       column_name := Some (case column_name f of None \<Rightarrow> a | Some c \<Rightarrow> c)\<rparr>"

definition bound_column :: "string \<Rightarrow> field \<Rightarrow> string" where
  "bound_column a f = (case column_name f of None \<Rightarrow> a | Some c \<Rightarrow> c)"

text \<open>The loop of \<open>ModelMeta.__new__\<close> over the items of the class body.\<close>

fun meta_loop ::
  "interpreter \<Rightarrow> (string \<times> member) list \<Rightarrow> meta_state \<Rightarrow> error + meta_state" where
  "meta_loop b [] st = Inr st"
| "meta_loop b ((a, MOther v) # rest) st = meta_loop b rest st"
| "meta_loop b ((a, MField f) # rest) st =
     (let value = bind_field a f
      in if is_key value
         then
           (if ms_found_primary st
            then Inl (TypeError ''Expected a single primary key Field but found two.'')
            else
              meta_loop b rest
                (st\<lparr>ms_found_primary := True,
                    ms_primary_key := column_name value,
                    ms_columns := ms_columns st @ [bound_column a f],
                    ms_dct := dict_set (name_slot b) a (MField value) (ms_dct st)\<rparr>))
         else
           meta_loop b rest
             (st\<lparr>ms_columns := ms_columns st @ [bound_column a f],
                 ms_dct := dict_set (name_slot b) a (MField value) (ms_dct st)\<rparr>))"

text \<open>
  The class body as the loop sees it: the metaclass first stores its three static
  variables in it, replacing whatever the body declared under these names.
\<close>

definition class_body ::
  "interpreter \<Rightarrow> string \<Rightarrow> (string \<times> member) list \<Rightarrow> (string \<times> member) list" where
  "class_body b name dct =
     dict_set (name_slot b) ''_tablename'' (MOther (VStr name))
       (dict_set (name_slot b) ''_primary_key'' (MOther VNone)
         (dict_set (name_slot b) ''_tablename'' (MOther VNone)
           (dict_set (name_slot b) ''_columns'' (MOther (VOther ''_columns'')) dct)))"

definition ModelMeta_new ::
  "interpreter \<Rightarrow> string \<Rightarrow> (string \<times> member) list \<Rightarrow> error + model_class" where
  "ModelMeta_new b name dct =
     (let dct0 = class_body b name dct
      in bind_err
           (meta_loop b dct0
              \<lparr>ms_columns = [], ms_primary_key = None, ms_found_primary = False,
               ms_dct = dct0\<rparr>)
           (\<lambda>st. case ms_primary_key st of
                    None \<Rightarrow>
                      Inr \<lparr>tablename = name, columns = ''_rowid_'' # ms_columns st,
                           primary_key = ''_rowid_'',
                           members = dict_set (name_slot b) ''_rowid_''
                             (MField (FieldInteger (no_kwargs\<lparr>kw_is_key := Some True\<rparr>)))
                             (dict_set (name_slot b) ''_primary_key'' (MOther (VStr ''_rowid_''))
                                (ms_dct st))\<rparr>
                  | Some pk \<Rightarrow>
                      Inr \<lparr>tablename = name, columns = ms_columns st, primary_key = pk,
                           members = dict_set (name_slot b) ''_primary_key'' (MOther (VStr pk))
                                       (ms_dct st)\<rparr>))"

text \<open>The fields of a class body, with their attribute names, in iteration order.\<close>

fun fields_of :: "(string \<times> member) list \<Rightarrow> (string \<times> field) list" where
  "fields_of [] = []"
| "fields_of ((a, MField f) # rest) = (a, f) # fields_of rest"
| "fields_of ((a, MOther v) # rest) = fields_of rest"

definition key_fields :: "(string \<times> member) list \<Rightarrow> (string \<times> field) list" where
  "key_fields dct = filter (\<lambda>(a, f). is_key f) (fields_of dct)"

fun bind_member :: "string \<times> member \<Rightarrow> string \<times> member" where
  "bind_member (a, MField f) = (a, MField (bind_field a f))"
| "bind_member (a, MOther v) = (a, MOther v)"

section \<open>The query builder\<close>

definition unknown_column :: "model_class \<Rightarrow> key \<Rightarrow> error" where
  "unknown_column cls a =
     TypeError (''Found unknown column '' @ key_str a @
                ''. Model only supports columns '' @ join '', '' (columns cls) @ ''.'')"

text \<open>
  The loop over the merged dictionary of \<open>where\<close> and \<open>data\<close>: the first key that is not a
  column of the model raises.
\<close>

fun check_columns :: "model_class \<Rightarrow> key list \<Rightarrow> error option" where
  "check_columns cls [] = None"
| "check_columns cls (a # rest) =
     (if a \<notin> set (map Some (columns cls)) then Some (unknown_column cls a)
      else check_columns cls rest)"

text \<open>
  \<open>_generate_query\<close>, up to the call of the engine: the statement and the parameter list
  that are passed to \<open>cursor.execute\<close>.
\<close>

definition generate_query ::
  "interpreter \<Rightarrow> model_class \<Rightarrow> string \<Rightarrow> (key \<times> pyval) list \<Rightarrow>
     (key \<times> pyval) list \<Rightarrow> error + (string \<times> pyval list)" where
  "generate_query b cls query wher data =
     (case check_columns cls (map fst (dict_of_items (key_slot b) [] (wher @ data))) of
        Some e \<Rightarrow> Inl e
      | None \<Rightarrow>
         (let where1 = dict_set (key_slot b) (Some ''1'') (VInt 1) wher;
              where_query = join '' AND '' (map (\<lambda>x. key_str x @ '' = ?'') (map fst where1));
              query_list = map snd where1;
              query1 = py_upper query
          in if query1 = ''SELECT''
             then Inr (''SELECT '' @ join '', '' (columns cls) @ '' FROM '' @ tablename cls @
                       '' WHERE '' @ where_query, query_list)
             else if query1 = ''UPDATE''
             then
               (let data_query =
                      join '' AND '' (map (\<lambda>x. key_str x @ '' = ?'') (map fst data))
                in Inr (''UPDATE '' @ tablename cls @ '' SET '' @ data_query @
                        '' WHERE '' @ where_query, map snd data @ query_list))
             else if query1 = ''INSERT''
             then
               (let data_query = join '', '' (map key_str (map fst data));
                    query_list2 = map snd data
                in Inr (''INSERT INTO '' @ tablename cls @ '' ('' @ data_query @
                        '') VALUES ('' @ join '', '' (replicate (length query_list2) ''?'') @
                        '')'', query_list2))
             else if query1 = ''DELETE''
             then Inr (''DELETE FROM '' @ tablename cls @ '' WHERE '' @ where_query, query_list)
             else Inl (TypeError
                    (''Requested query was of unknown type. Only supports '' @
                     ''SELECT, UPDATE, INSERT and DELETE but got '' @ [CHR 0x27] @ query1 @
                     [CHR 0x27]))))"

section \<open>Instances\<close>

text \<open>
  The class \<open>Model\<close> itself is made by the metaclass, from its own body: the flag
  \<open>_saved\<close> and its methods.  It declares no key, so its class dictionary holds the three
  static variables and a \<open>_rowid_\<close> field of its own.  A model class inherits what
  \<open>Model\<close> has; the dictionary is only read by name here, so its order has no meaning.
\<close>

definition Model_body :: "(string \<times> member) list" where
  "Model_body =
     [(''_saved'', MOther (VOther ''False'')),
      (''__init__'', MOther (VOther ''function'')),
      (''save'', MOther (VOther ''function'')),
      (''delete'', MOther (VOther ''function'')),
      (''get'', MOther (VOther ''function'')),
      (''filter'', MOther (VOther ''function'')),
      (''_generate_query'', MOther (VOther ''function'')),
      (''_result_to_model'', MOther (VOther ''function'')),
      (''get_create_statement'', MOther (VOther ''function''))]"

definition Model_members :: "(string \<times> member) list" where
  "Model_members =
     Model_body @
     [(''_columns'', MOther (VOther ''_columns'')),
      (''_tablename'', MOther (VStr ''Model'')),
      (''_primary_key'', MOther (VStr ''_rowid_'')),
      (''_rowid_'', MField (FieldInteger (no_kwargs\<lparr>kw_is_key := Some True\<rparr>)))]"

text \<open>Attribute lookup on the class: its own dictionary, then \<open>Model\<close>'s.\<close>

definition lookup_attr :: "model_class \<Rightarrow> string \<Rightarrow> member option" where
  "lookup_attr cls name =
     (case map_of (members cls) name of
        Some m \<Rightarrow> Some m
      | None \<Rightarrow> map_of Model_members name)"

text \<open>
  An instance: its \<open>__dict__\<close>, a dictionary keyed by what the descriptors and \<open>setattr\<close> store under
  (a field stores under its \<open>attr\<close>, which is \<open>None\<close> for a field the metaclass never
  bound), and the flag \<open>_saved\<close>, kept apart from the other attributes.
\<close>

record model_instance =
  idict :: "(key \<times> pyval) list"
  saved :: bool

text \<open>
  \<open>getattr(self, name)\<close>: a field of the class answers through \<open>Field.__get__\<close>, which
  reads \<open>instance.__dict__[self.attr]\<close>.
\<close>

definition getattr :: "model_class \<Rightarrow> model_instance \<Rightarrow> string \<Rightarrow> error + pyval" where
  "getattr cls inst name =
     (case lookup_attr cls name of
        Some (MField f) \<Rightarrow>
          (case map_of (idict inst) (attr f) of None \<Rightarrow> Inl KeyError | Some v \<Rightarrow> Inr v)
      | Some (MOther v) \<Rightarrow>
          (case map_of (idict inst) (Some name) of None \<Rightarrow> Inr v | Some x \<Rightarrow> Inr x)
      | None \<Rightarrow>
          (case map_of (idict inst) (Some name) of
             None \<Rightarrow> Inl AttributeError | Some x \<Rightarrow> Inr x))"

text \<open>
  \<open>setattr(self, name, value)\<close>: a field of the class takes the value through
  \<open>Field.__set__\<close>, which stores \<open>validate(value)\<close> under \<open>self.attr\<close>; any other name
  becomes a plain attribute of the instance.
\<close>

definition setattr ::
  "interpreter \<Rightarrow> model_class \<Rightarrow> model_instance \<Rightarrow> string \<Rightarrow> pyval \<Rightarrow> error + model_instance" where
  "setattr b cls inst name v =
     (case lookup_attr cls name of
        Some (MField f) \<Rightarrow>
          bind_err (validate b f v)
            (\<lambda>x. Inr (inst\<lparr>idict := store_attr (attr f) x (idict inst)\<rparr>))
      | _ \<Rightarrow> Inr (inst\<lparr>idict := store_attr (Some name) v (idict inst)\<rparr>))"

text \<open>\<open>Model.__init__\<close>: every field of the class dictionary gets its keyword or its default.\<close>

fun init_loop ::
  "interpreter \<Rightarrow> model_class \<Rightarrow> (string \<times> pyval) list \<Rightarrow> (string \<times> member) list \<Rightarrow>
     model_instance \<Rightarrow> error + model_instance" where
  "init_loop b cls kw [] inst = Inr inst"
| "init_loop b cls kw ((a, MOther v) # rest) inst = init_loop b cls kw rest inst"
| "init_loop b cls kw ((a, MField f) # rest) inst =
     bind_err
       (setattr b cls inst a
          (case map_of kw a of Some v \<Rightarrow> v | None \<Rightarrow> default_value f))
       (init_loop b cls kw rest)"

definition Model_init ::
  "interpreter \<Rightarrow> model_class \<Rightarrow> (string \<times> pyval) list \<Rightarrow> error + model_instance" where
  "Model_init b cls kw = init_loop b cls kw (members cls) \<lparr>idict = [], saved = False\<rparr>"

section \<open>Reading rows\<close>

text \<open>
  The engine: \<open>cursor.execute(statement, query_list)\<close> is a parameter, which answers with
  an error of its own or with a cursor, the rows it found and \<open>lastrowid\<close>.
\<close>

record cursor =
  rows :: "pyval list list"
  lastrowid :: pyval

type_synonym engine = "string \<Rightarrow> pyval list \<Rightarrow> error + cursor"

definition fetchone :: "cursor \<Rightarrow> pyval list option" where
  "fetchone cur = (case rows cur of [] \<Rightarrow> None | r # rs \<Rightarrow> Some r)"

definition row_item :: "pyval list \<Rightarrow> nat \<Rightarrow> error + pyval" where
  "row_item result i = (if i < length result then Inr (result ! i) else Inl IndexError)"

text \<open>
  The inner loop of \<open>_result_to_model\<close> for the column \<open>col\<close> at index \<open>i\<close>: every field
  of the class dictionary whose \<open>column_name\<close> is that column is assigned \<open>result[i]\<close>.
\<close>

fun hydrate_column ::
  "interpreter \<Rightarrow> model_class \<Rightarrow> pyval list \<Rightarrow> nat \<Rightarrow> string \<Rightarrow> (string \<times> member) list \<Rightarrow>
     model_instance \<Rightarrow> error + model_instance" where
  "hydrate_column b cls result i col [] out = Inr out"
| "hydrate_column b cls result i col ((a, MOther v) # rest) out =
     hydrate_column b cls result i col rest out"
| "hydrate_column b cls result i col ((a, MField f) # rest) out =
     (if column_name f = Some col
      then bind_err (row_item result i) (\<lambda>raw.
           bind_err (from_db_format f raw) (\<lambda>v.
           bind_err (setattr b cls out a v) (hydrate_column b cls result i col rest)))
      else hydrate_column b cls result i col rest out)"

text \<open>The outer loop, over the indices of \<open>_columns\<close>.\<close>

fun hydrate_columns ::
  "interpreter \<Rightarrow> model_class \<Rightarrow> pyval list \<Rightarrow> nat list \<Rightarrow> model_instance \<Rightarrow> error + model_instance" where
  "hydrate_columns b cls result [] out = Inr out"
| "hydrate_columns b cls result (i # rest) out =
     bind_err (hydrate_column b cls result i (columns cls ! i) (members cls) out)
       (hydrate_columns b cls result rest)"

definition result_to_model ::
  "interpreter \<Rightarrow> model_class \<Rightarrow> pyval list option \<Rightarrow> error + model_instance option" where
  "result_to_model b cls result =
     (case result of
        None \<Rightarrow> Inr None
      | Some row \<Rightarrow>
          bind_err (Model_init b cls []) (\<lambda>out.
          bind_err (hydrate_columns b cls row [0..<length (columns cls)] (out\<lparr>saved := True\<rparr>))
            (\<lambda>out'. Inr (Some out'))))"

text \<open>\<open>Model.get\<close>; \<open>ident\<close> is the argument \<open>id\<close>.\<close>

definition get ::
  "interpreter \<Rightarrow> engine \<Rightarrow> model_class \<Rightarrow> pyval \<Rightarrow> (string \<times> pyval) list \<Rightarrow>
     error + model_instance option" where
  "get b execute cls ident kwargs =
     (let kwargs1 = (if ident \<noteq> VNone then [(Some (primary_key cls), ident)]
                     else str_keys kwargs)
      in bind_err (generate_query b cls ''SELECT'' kwargs1 []) (\<lambda>(statement, query_list).
         bind_err (execute statement query_list) (\<lambda>cur.
           result_to_model b cls (fetchone cur))))"

text \<open>The loop of \<open>Model.filter\<close> over the rows of the cursor.\<close>

fun filter_rows ::
  "interpreter \<Rightarrow> model_class \<Rightarrow> pyval list list \<Rightarrow> error + model_instance option list" where
  "filter_rows b cls [] = Inr []"
| "filter_rows b cls (row # rest) =
     bind_err (result_to_model b cls (Some row)) (\<lambda>m.
     bind_err (filter_rows b cls rest) (\<lambda>ms. Inr (m # ms)))"

definition filter_model ::
  "interpreter \<Rightarrow> engine \<Rightarrow> model_class \<Rightarrow> (string \<times> pyval) list \<Rightarrow>
     error + model_instance option list" where
  "filter_model b execute cls kwargs =
     bind_err (generate_query b cls ''SELECT'' (str_keys kwargs) []) (\<lambda>(statement, query_list).
     bind_err (execute statement query_list) (\<lambda>cur. filter_rows b cls (rows cur)))"

section \<open>Saving and the table definition\<close>

text \<open>
  What \<open>save\<close> stores for the field \<open>f\<close> found under the attribute \<open>a\<close>:
  \<open>value.to_db_format(getattr(self, attr), not self._saved, True)\<close>.
\<close>

definition save_value ::
  "datetime \<Rightarrow> model_class \<Rightarrow> model_instance \<Rightarrow> string \<Rightarrow> field \<Rightarrow> error + pyval" where
  "save_value now cls inst a f =
     bind_err (getattr cls inst a) (\<lambda>v. to_db_format now f v (\<not> saved inst) True)"

text \<open>The loop of \<open>save\<close> that fills \<open>data\<close> from the fields that are not the key.\<close>

fun save_data ::
  "interpreter \<Rightarrow> datetime \<Rightarrow> model_class \<Rightarrow> model_instance \<Rightarrow> (string \<times> member) list \<Rightarrow>
     (key \<times> pyval) list \<Rightarrow> error + (key \<times> pyval) list" where
  "save_data b now cls inst [] data = Inr data"
| "save_data b now cls inst ((a, MOther v) # rest) data = save_data b now cls inst rest data"
| "save_data b now cls inst ((a, MField f) # rest) data =
     (if is_key f = False
      then bind_err (save_value now cls inst a f)
             (\<lambda>x. save_data b now cls inst rest (dict_set (key_slot b) (column_name f) x data))
      else save_data b now cls inst rest data)"

text \<open>
  The query of \<open>Model.save\<close>, as it is passed to the engine: an UPDATE keyed by
  \<open>getattr(self, self._primary_key)\<close> for a saved instance, else an INSERT.
\<close>

definition save_query ::
  "interpreter \<Rightarrow> datetime \<Rightarrow> model_class \<Rightarrow> model_instance \<Rightarrow>
     error + (string \<times> pyval list)" where
  "save_query b now cls inst =
     bind_err (save_data b now cls inst (members cls) []) (\<lambda>data.
       if saved inst
       then
         bind_err (getattr cls inst (primary_key cls)) (\<lambda>pk.
           generate_query b cls ''UPDATE'' [(Some (primary_key cls), pk)] data)
       else generate_query b cls ''INSERT'' [] data)"

text \<open>
  \<open>Model.save\<close>: the query is executed; after an INSERT,
  \<open>setattr(self, self._primary_key, cursor.lastrowid)\<close>; then \<open>_saved\<close> is set.
\<close>

definition save ::
  "interpreter \<Rightarrow> datetime \<Rightarrow> engine \<Rightarrow> model_class \<Rightarrow> model_instance \<Rightarrow>
     error + model_instance" where
  "save b now execute cls inst =
     bind_err (save_query b now cls inst) (\<lambda>(statement, query_list).
     bind_err (execute statement query_list) (\<lambda>cur.
       if saved inst then Inr (inst\<lparr>saved := True\<rparr>)
       else bind_err (setattr b cls inst (primary_key cls) (lastrowid cur))
              (\<lambda>inst'. Inr (inst'\<lparr>saved := True\<rparr>))))"




section \<open>Example record types\<close>


definition Note_class :: model_class where
  "Note_class =
     \<lparr>tablename = ''Note'', columns = [''id'', ''text''], primary_key = ''id'',
      members =
        [(''id'', MField
            \<lparr>kind = KInteger, column_name = Some ''id'', is_key = True, is_unique = False,
             allow_null = True, check = False, default_value = VInt 0, attr = Some ''id'',
             auto_now = False, auto_now_add = False\<rparr>),
         (''text'', MField
            \<lparr>kind = KText, column_name = Some ''text'', is_key = False, is_unique = False,
             allow_null = True, check = False, default_value = VNone, attr = Some ''text'',
             auto_now = False, auto_now_add = False\<rparr>),
         (''_columns'', MOther (VOther ''_columns'')),
         (''_tablename'', MOther (VStr ''Note'')),
         (''_primary_key'', MOther (VStr ''id''))]\<rparr>"



text \<open>
  \<open>Visit\<close>: no key is declared, and the field \<open>rid = FieldInteger(column_name='_rowid_')\<close>
  is stored in the column of the row identifier, beside \<open>text = FieldText()\<close>.
\<close>

definition Visit_body :: "(string \<times> member) list" where
  "Visit_body =
     [(''rid'', MField (FieldInteger (no_kwargs\<lparr>kw_column_name := Some ''_rowid_''\<rparr>))),
      (''text'', MField (FieldText no_kwargs))]"

definition Visit_class :: model_class where
  "Visit_class =
     \<lparr>tablename = ''Visit'', columns = [''_rowid_'', ''_rowid_'', ''text''],
      primary_key = ''_rowid_'',
      members =
        [(''rid'', MField
            \<lparr>kind = KInteger, column_name = Some ''_rowid_'', is_key = False,
             is_unique = False, allow_null = True, check = False, default_value = VInt 0,
             attr = Some ''rid'', auto_now = False, auto_now_add = False\<rparr>),
         (''text'', MField
            \<lparr>kind = KText, column_name = Some ''text'', is_key = False, is_unique = False,
             allow_null = True, check = False, default_value = VNone, attr = Some ''text'',
             auto_now = False, auto_now_add = False\<rparr>),
         (''_columns'', MOther (VOther ''_columns'')),
         (''_tablename'', MOther (VStr ''Visit'')),
         (''_primary_key'', MOther (VStr ''_rowid_'')),
         (''_rowid_'', MField
            \<lparr>kind = KInteger, column_name = None, is_key = True, is_unique = False,
             allow_null = True, check = False, default_value = VInt 0, attr = None,
             auto_now = False, auto_now_add = False\<rparr>)]\<rparr>"

text \<open>
  Two interpreters, both converting nothing but ints and Decimals.  The first gives every
  key the same rank, so its dictionaries are iterated in the order the keys were stored.
  The second gives the query key \<open>1\<close> the lowest rank, so that key is iterated first, as
  CPython 2.7 iterates the dictionary \<open>{'id': 5}\<close> once \<open>'1'\<close> is stored in it.
\<close>

definition strict_interpreter :: interpreter where
  "strict_interpreter =
     \<lparr>py_int = (\<lambda>v. Inl ValueError), py_Decimal = (\<lambda>v. Inl ValueError),
      name_slot = (\<lambda>ks k. 0), key_slot = (\<lambda>ks k. 0)\<rparr>"

definition sentinel_first_interpreter :: interpreter where
  "sentinel_first_interpreter =
     \<lparr>py_int = (\<lambda>v. Inl ValueError), py_Decimal = (\<lambda>v. Inl ValueError),
      name_slot = (\<lambda>ks k. 0), key_slot = (\<lambda>ks k. if k = Some ''1'' then 0 else 1)\<rparr>"

text \<open>
  \<open>Event\<close>: \<open>created = FieldDateTime(auto_now_add=True)\<close> and \<open>title = FieldText()\<close>, with no
  declared key.
\<close>

definition Event_body :: "(string \<times> member) list" where
  "Event_body =
     [(''created'', MField (FieldDateTime False True no_kwargs)),
      (''title'', MField (FieldText no_kwargs))]"

definition Event_class :: model_class where
  "Event_class =
     \<lparr>tablename = ''Event'', columns = [''_rowid_'', ''created'', ''title''],
      primary_key = ''_rowid_'',
      members =
        [(''created'', MField
            \<lparr>kind = KDateTime, column_name = Some ''created'', is_key = False,
             is_unique = False, allow_null = False, check = False,
             default_value = VDateTime datetime_min, attr = Some ''created'',
             auto_now = False, auto_now_add = True\<rparr>),
         (''title'', MField
            \<lparr>kind = KText, column_name = Some ''title'', is_key = False, is_unique = False,
             allow_null = True, check = False, default_value = VNone, attr = Some ''title'',
             auto_now = False, auto_now_add = False\<rparr>),
         (''_columns'', MOther (VOther ''_columns'')),
         (''_tablename'', MOther (VStr ''Event'')),
         (''_primary_key'', MOther (VStr ''_rowid_'')),
         (''_rowid_'', MField
            \<lparr>kind = KInteger, column_name = None, is_key = True, is_unique = False,
             allow_null = True, check = False, default_value = VInt 0, attr = None,
             auto_now = False, auto_now_add = False\<rparr>)]\<rparr>"

text \<open>
  An instance of \<open>Event\<close> whose attribute \<open>created\<close> holds \<open>c\<close>, before its first save and
  after it, when the engine has answered with the row identifier 1.
\<close>

definition Event_instance :: "datetime \<Rightarrow> pyval \<Rightarrow> bool \<Rightarrow> model_instance" where
  "Event_instance c rid s =
     \<lparr>idict = [(Some ''created'', VDateTime c), (Some ''title'', VStr ''None''), (None, rid)],
      saved = s\<rparr>"

text \<open>Two moments, and an engine that accepts every statement and answers \<open>lastrowid = 1\<close>.\<close>

definition march_2012 :: datetime where
  "march_2012 =
     \<lparr>year = 2012, month = 3, day = 4, hour = 5, minute = 6, second = 7, microsecond = 89,
      tzinfo = None\<rparr>"

definition may_2000 :: datetime where
  "may_2000 =
     \<lparr>year = 2000, month = 5, day = 6, hour = 7, minute = 8, second = 9, microsecond = 0,
      tzinfo = None\<rparr>"

definition accepting_engine :: engine where
  "accepting_engine statement query_list = Inr \<lparr>rows = [], lastrowid = VInt 1\<rparr>"


section \<open>Properties of the timestamp format\<close>

lemma digit_val_digit_char: "d < 10 \<Longrightarrow> digit_val (digit_char d) = Some d"
proof -
  assume "d < 10"
  then have "d \<in> {0, 1, 2, 3, 4, 5, 6, 7, 8, 9}" by auto
  then show ?thesis
    by (auto simp: digit_val_def digit_char_def)
qed

lemma parse_digits_append:
  "parse_digits acc (xs @ [c]) =
     (case parse_digits acc xs of None \<Rightarrow> None
      | Some a \<Rightarrow> (case digit_val c of None \<Rightarrow> None | Some d \<Rightarrow> Some (10 * a + d)))"
  by (induction xs arbitrary: acc) (auto split: option.splits)

lemma length_zpad: "length (zpad w k) = w"
  by (induction w arbitrary: k) auto

lemma parse_zpad: "k < 10 ^ w \<Longrightarrow> parse_digits 0 (zpad w k) = Some k"
proof (induction w arbitrary: k)
  case 0
  then show ?case by simp
next
  case (Suc w)
  then have "k div 10 < 10 ^ w" by (simp add: less_mult_imp_div_less mult.commute)
  then have "parse_digits 0 (zpad w (k div 10)) = Some (k div 10)" by (rule Suc.IH)
  then show ?case by (simp add: parse_digits_append digit_val_digit_char)
qed

text \<open>Reading back what was written gives the datetime without its \<open>tzinfo\<close>.\<close>

lemma strptime_timestamp_string:
  "valid_datetime d \<Longrightarrow> strptime (timestamp_string d) = Inr (d\<lparr>tzinfo := None\<rparr>)"
proof -
  assume v: "valid_datetime d"
  then have p: "parse_digits 0 (zpad 4 (year d)) = Some (year d)"
      "parse_digits 0 (zpad 2 (month d)) = Some (month d)"
      "parse_digits 0 (zpad 2 (day d)) = Some (day d)"
      "parse_digits 0 (zpad 2 (hour d)) = Some (hour d)"
      "parse_digits 0 (zpad 2 (minute d)) = Some (minute d)"
      "parse_digits 0 (zpad 2 (second d)) = Some (second d)"
      "parse_digits 0 (zpad 6 (microsecond d)) = Some (microsecond d)"
    by (simp_all add: valid_datetime_def parse_zpad)
  obtain a b c e f g h where ab: "zpad 4 (year d) = a" "zpad 2 (month d) = b"
     "zpad 2 (day d) = c" "zpad 2 (hour d) = e" "zpad 2 (minute d) = f"
     "zpad 2 (second d) = g" "zpad 6 (microsecond d) = h"
    by simp
  have l: "length a = 4" "length b = 2" "length c = 2" "length e = 2" "length f = 2"
     "length g = 2" "length h = 6"
    using ab length_zpad by auto
  have s: "timestamp_string d =
      a @ ''-'' @ b @ ''-'' @ c @ '' '' @ e @ '':'' @ f @ '':'' @ g @ ''.'' @ h"
    by (simp add: timestamp_string_def ab)
  show ?thesis
    unfolding s strptime_def using l p[unfolded ab] v
    by (simp add: nth_append Let_def valid_datetime_def)
qed

section \<open>Fields: validation, storage format, column definition\<close>

text \<open>
  C1 (as stated, refuted).  The claim says that for a value \<open>v\<close> accepted by \<open>validate\<close> the
  round trip \<open>from_storage(to_storage(validate(v), first_time, is_query=false))\<close> gives \<open>v\<close>
  back.  A Text field accepts \<open>None\<close> and coerces it to the string \<open>None\<close>, which the round
  trip returns: a string, not the value that was passed.  A DateTime field accepts an aware
  datetime, here one hour east of UTC, and the round trip returns it without its
  \<open>tzinfo\<close>.  A DateTime field accepts \<open>datetime.min\<close>, its own default, and
  \<open>to_storage\<close> fails on it with a \<open>ValueError\<close>.
\<close>

theorem roundtrip_does_not_reproduce:
  "bind_err (FieldText_validate VNone)
     (storage_roundtrip datetime_min (FieldText no_kwargs) True) = Inr (VStr ''None'') \<and>
   VStr ''None'' \<noteq> VNone \<and>
   bind_err (FieldDateTime_validate
       (VDateTime \<lparr>year = 2012, month = 3, day = 4, hour = 5, minute = 6, second = 7,
          microsecond = 89, tzinfo = Some 60\<rparr>))
     (storage_roundtrip datetime_min (FieldDateTime False False no_kwargs) True) =
     Inr (VDateTime \<lparr>year = 2012, month = 3, day = 4, hour = 5, minute = 6, second = 7,
          microsecond = 89, tzinfo = None\<rparr>) \<and>
   bind_err (FieldDateTime_validate (VDateTime datetime_min))
     (storage_roundtrip datetime_min (FieldDateTime False False no_kwargs) True) =
     Inl ValueError"
proof -
  have v: "valid_datetime \<lparr>year = 2012, month = 3, day = 4, hour = 5, minute = 6,
      second = 7, microsecond = 89, tzinfo = Some 60\<rparr>"
    by (simp add: valid_datetime_def)
  show ?thesis
    using strptime_timestamp_string[OF v]
    by (simp add: FieldText_validate_def FieldDateTime_validate_def storage_roundtrip_def
        bind_err_def to_db_format_def from_db_format_def FieldText_def FieldDateTime_def
        Field_init_def no_kwargs_def Let_def strftime_def datetime_min_def)
qed

text \<open>
  C1 (amended).  For every field kind and every value \<open>v\<close> that \<open>validate\<close> accepts, with
  \<open>x = validate(v)\<close> the coerced value: for Integer, Decimal and Text,
  \<open>from_storage(to_storage(x, first_time, is_query=false))\<close> is \<open>x\<close> exactly; for DateTime
  \<open>x\<close> is \<open>v\<close> itself, and for a datetime of the year 1900 or later the round trip gives
  \<open>v\<close> without its \<open>tzinfo\<close>, that is \<open>v\<close> exactly, with all its microseconds, when \<open>v\<close> is
  naive.  This holds for either value of \<open>first_time\<close> and whatever the clock reads.
\<close>

theorem roundtrip_of_validated:
  assumes "validate b f v = Inr x"
    and "\<forall>d. x = VDateTime d \<longrightarrow> valid_datetime d \<and> 1900 \<le> year d"
  shows "storage_roundtrip now f first_time x =
       Inr (if kind f = KDateTime then naive x else x) \<and>
     (kind f = KDateTime \<longrightarrow> x = v)"
proof (cases "kind f")
  case KDateTime
  with assms(1) obtain d where d: "v = VDateTime d" "x = v"
    by (auto simp: validate_def FieldDateTime_validate_def split: pyval.splits)
  with assms(2) have "valid_datetime d" "\<not> year d < 1900" by auto
  then show ?thesis using KDateTime d
    by (simp add: storage_roundtrip_def to_db_format_def from_db_format_def bind_err_def
        strptime_timestamp_string strftime_def naive_def)
qed (simp_all add: storage_roundtrip_def to_db_format_def from_db_format_def bind_err_def)

theorem roundtrip_of_validated_witness:
  "validate strict_interpreter (FieldDateTime False True no_kwargs)
     (VDateTime \<lparr>year = 2012, month = 3, day = 4, hour = 5, minute = 6, second = 7,
        microsecond = 89, tzinfo = Some 60\<rparr>) =
   Inr (VDateTime \<lparr>year = 2012, month = 3, day = 4, hour = 5, minute = 6, second = 7,
        microsecond = 89, tzinfo = Some 60\<rparr>) \<and>
   valid_datetime \<lparr>year = 2012, month = 3, day = 4, hour = 5, minute = 6, second = 7,
        microsecond = 89, tzinfo = Some 60\<rparr> \<and>
   storage_roundtrip datetime_min (FieldDateTime False True no_kwargs) True
     (VDateTime \<lparr>year = 2012, month = 3, day = 4, hour = 5, minute = 6, second = 7,
        microsecond = 89, tzinfo = Some 60\<rparr>) =
   Inr (VDateTime \<lparr>year = 2012, month = 3, day = 4, hour = 5, minute = 6, second = 7,
        microsecond = 89, tzinfo = None\<rparr>) \<and>
   validate strict_interpreter (FieldInteger no_kwargs) (VInt 7) = Inr (VInt 7) \<and>
   storage_roundtrip datetime_min (FieldInteger no_kwargs) True (VInt 7) = Inr (VInt 7)"
  using roundtrip_of_validated [of strict_interpreter
      "FieldDateTime False True no_kwargs"
      "VDateTime \<lparr>year = 2012, month = 3, day = 4, hour = 5, minute = 6, second = 7,
        microsecond = 89, tzinfo = Some 60\<rparr>"
      "VDateTime \<lparr>year = 2012, month = 3, day = 4, hour = 5, minute = 6, second = 7,
        microsecond = 89, tzinfo = Some 60\<rparr>" datetime_min True]
    roundtrip_of_validated [of strict_interpreter "FieldInteger no_kwargs" "VInt 7" "VInt 7"
      datetime_min True]
  by (simp add: validate_def FieldDateTime_def FieldInteger_def Field_init_def no_kwargs_def
      Let_def FieldDateTime_validate_def FieldInteger_validate_def valid_datetime_def
      naive_def or_default_def)

text \<open>
  C2 (the code at the failing input).  An Integer field declared with no options has the
  numeric default \<open>0\<close> and none of the four flags, so its column definition takes the
  \<open>DEFAULT\<close> branch; there the code appends the number itself to the statement, and the call
  ends in a \<open>TypeError\<close> instead of returning \<open>age INTEGER DEFAULT 0\<close>.
\<close>

theorem integer_default_column_statement_fails:
  "get_column_statement now ((FieldInteger no_kwargs)\<lparr>column_name := Some ''age'',
       attr := Some ''age''\<rparr>) =
     Inl (TypeError ''cannot concatenate 'str' and number objects'')"
  by (simp add: get_column_statement_def FieldInteger_def Field_init_def no_kwargs_def
      or_default_def to_db_format_def bind_err_def)

section \<open>Dictionaries\<close>

lemma keys_dict_replace [simp]: "map fst (dict_replace k v d) = map fst d"
  by (induction d) auto

lemma map_of_dict_replace:
  "map_of (dict_replace k v d) k' =
     (if k' = k \<and> k \<in> fst ` set d then Some v else map_of d k')"
  by (induction d) (force simp: image_iff)+

lemma keys_set_dict_replace: "fst ` set (dict_replace k v d) = fst ` set d"
  using keys_dict_replace[of k v d] by (metis list.set_map)

lemma set_dict_replace:
  "distinct (map fst d) \<Longrightarrow> k \<in> fst ` set d \<Longrightarrow>
   set (dict_replace k v d) = insert (k, v) {p \<in> set d. fst p \<noteq> k}"
  by (induction d) (auto simp: rev_image_eqI)

lemma map_of_unique:
  assumes "(k, v) \<in> set xs" and "\<And>v'. (k, v') \<in> set xs \<Longrightarrow> v' = v"
  shows "map_of xs k = Some v"
proof -
  from assms(1) obtain x where x: "map_of xs k = Some x"
    by (meson weak_map_of_SomeI)
  then have "(k, x) \<in> set xs" by (rule map_of_SomeD)
  with assms(2) x show ?thesis by simp
qed

lemma keys_sort_key: "mset (map fst (sort_key f xs)) = mset (map fst xs)"
  by (metis mset_map mset_sort)

lemma distinct_keys_sort_key:
  "distinct (map fst (sort_key f xs)) = distinct (map fst xs)"
  using keys_sort_key[of f xs] by (metis mset_eq_imp_distinct_iff)

text \<open>What a store does to a dictionary does not depend on the order its items take.\<close>

lemma map_of_dict_set_same: "map_of (dict_set slot k v d) k = Some v"
proof (cases "k \<in> fst ` set d")
  case True
  then show ?thesis by (simp add: dict_set_def map_of_dict_replace)
next
  case False
  then have "\<And>v'. (k, v') \<in> set (d @ [(k, v)]) \<Longrightarrow> v' = v"
    by (auto simp: rev_image_eqI)
  with False show ?thesis
    by (auto simp: dict_set_def intro!: map_of_unique)
qed

lemma keys_dict_set: "fst ` set (dict_set slot k v d) = insert k (fst ` set d)"
proof (cases "k \<in> fst ` set d")
  case True
  then show ?thesis by (auto simp: dict_set_def keys_set_dict_replace)
next
  case False
  then show ?thesis by (simp add: dict_set_def)
qed

lemma distinct_dict_set:
  "distinct (map fst d) \<Longrightarrow> distinct (map fst (dict_set slot k v d))"
  by (auto simp: dict_set_def distinct_keys_sort_key)

lemma set_dict_set:
  "distinct (map fst d) \<Longrightarrow>
   set (dict_set slot k v d) = insert (k, v) {p \<in> set d. fst p \<noteq> k}"
proof (cases "k \<in> fst ` set d")
  case True
  assume "distinct (map fst d)"
  with True show ?thesis by (simp add: dict_set_def set_dict_replace)
next
  case False
  then have "{p \<in> set d. fst p \<noteq> k} = set d" by (auto simp: rev_image_eqI)
  with False show ?thesis by (simp add: dict_set_def)
qed

lemma map_of_dict_set:
  assumes "distinct (map fst d)"
  shows "map_of (dict_set slot k v d) k' = (if k' = k then Some v else map_of d k')"
proof (cases "k' = k")
  case True
  then show ?thesis by (simp add: map_of_dict_set_same)
next
  case False
  have dd: "distinct (map fst (dict_set slot k v d))"
    using assms by (rule distinct_dict_set)
  have "(map_of (dict_set slot k v d) k' = Some y) = (map_of d k' = Some y)" for y
    using False assms dd by (simp add: map_of_eq_Some_iff set_dict_set)
  then have "map_of (dict_set slot k v d) k' = map_of d k'"
    by (metis option.exhaust)
  with False show ?thesis by simp
qed

lemma dict_replace_middle:
  "k \<notin> fst ` set xs \<Longrightarrow> dict_replace k v (xs @ (k, w) # ys) = xs @ (k, v) # ys"
  by (induction xs) auto

lemma dict_set_middle:
  "k \<notin> fst ` set xs \<Longrightarrow> dict_set slot k v (xs @ (k, w) # ys) = xs @ (k, v) # ys"
  by (simp add: dict_set_def dict_replace_middle)

text \<open>A new key adds one item and keeps the others, in some order.\<close>

lemma mset_dict_set_new:
  "k \<notin> fst ` set d \<Longrightarrow> mset (dict_set slot k v d) = mset d + {#(k, v)#}"
  by (simp add: dict_set_def)

lemma keys_dict_of_items:
  "fst ` set (dict_of_items slot acc kvs) = fst ` set acc \<union> fst ` set kvs"
  by (induction slot acc kvs rule: dict_of_items.induct) (simp_all add: keys_dict_set)

lemma map_of_store_attr:
  "map_of (store_attr k v d) k' = (if k' = k then Some v else map_of d k')"
  by (induction d) auto

section \<open>The metaclass\<close>

lemma is_key_bind_field [simp]: "is_key (bind_field a f) = is_key f"
  by (simp add: bind_field_def)

lemma column_name_bind_field [simp]: "column_name (bind_field a f) = Some (bound_column a f)"
  by (simp add: bind_field_def bound_column_def)

lemma meta_loop_two_keys:
  "2 \<le> (if ms_found_primary st then 1 else 0) + length (key_fields items) \<Longrightarrow>
   meta_loop b items st =
     Inl (TypeError ''Expected a single primary key Field but found two.'')"
proof (induction b items st rule: meta_loop.induct)
  case (1 b st)
  then show ?case by (simp add: key_fields_def split: if_splits)
next
  case (2 b a v rest st)
  then show ?case by (simp add: key_fields_def)
next
  case (3 b a f rest st)
  then show ?case by (auto simp: key_fields_def Let_def split: if_splits)
qed

lemma meta_loop_ok:
  "(if ms_found_primary st then 1 else 0) + length (key_fields items) \<le> 1 \<Longrightarrow>
   \<exists>st'. meta_loop b items st = Inr st' \<and>
     ms_columns st' = ms_columns st @ map (\<lambda>(a, f). bound_column a f) (fields_of items) \<and>
     ms_primary_key st' =
       (case key_fields items of [] \<Rightarrow> ms_primary_key st
        | (a, f) # _ \<Rightarrow> Some (bound_column a f))"
proof (induction b items st rule: meta_loop.induct)
  case (1 b st)
  then show ?case by (simp add: key_fields_def)
next
  case (2 b a v rest st)
  then show ?case by (simp add: key_fields_def)
next
  case (3 b a f rest st)
  then show ?case by (auto simp: key_fields_def Let_def split: if_splits list.splits)
qed

text \<open>
  When the class body is a dictionary (distinct names), the loop replaces every field in
  place by its bound version and leaves the rest of the class dictionary alone.
\<close>

lemma meta_loop_dct:
  "distinct (map fst (pre @ items)) \<Longrightarrow> ms_dct st = pre @ items \<Longrightarrow>
   meta_loop b items st = Inr st' \<Longrightarrow> ms_dct st' = pre @ map bind_member items"
proof (induction b items st arbitrary: pre rule: meta_loop.induct)
  case (1 b st)
  then show ?case by simp
next
  case (2 b a v rest st)
  from 2(1)[where pre = "pre @ [(a, MOther v)]"] 2(2-) show ?case by simp
next
  case (3 b a f rest st)
  have ds: "dict_set (name_slot b) a (MField (bind_field a f)) (ms_dct st) =
      (pre @ [(a, MField (bind_field a f))]) @ rest"
    using 3(3,4) by (simp add: dict_set_middle)
  show ?case
  proof (cases "is_key f")
    case True
    with 3(5) have nf: "\<not> ms_found_primary st" by (auto simp: Let_def split: if_splits)
    from 3(1)[where pre = "pre @ [(a, MField (bind_field a f))]"] True nf 3(3,5) ds
    show ?thesis by (simp add: Let_def)
  next
    case False
    from 3(2)[where pre = "pre @ [(a, MField (bind_field a f))]"] False 3(3,5) ds
    show ?thesis by (simp add: Let_def)
  qed
qed

text \<open>
  C4.  A record type whose class body declares no field with \<open>is_key\<close> is accepted, and
  its schema is the columns of the declared fields with one column more, \<open>_rowid_\<close>, put in
  front of them; \<open>_rowid_\<close> is recorded as the primary key, and the class dictionary holds
  under that name the synthesized field \<open>FieldInteger(is_key=True)\<close>, an INTEGER key.
\<close>

theorem rowid_key_synthesized:
  assumes "key_fields (class_body b name dct) = []"
  shows "\<exists>cls. ModelMeta_new b name dct = Inr cls \<and>
     columns cls =
       ''_rowid_'' # map (\<lambda>(a, f). bound_column a f) (fields_of (class_body b name dct)) \<and>
     primary_key cls = ''_rowid_'' \<and>
     map_of (members cls) ''_rowid_'' =
       Some (MField (FieldInteger (no_kwargs\<lparr>kw_is_key := Some True\<rparr>))) \<and>
     kind (FieldInteger (no_kwargs\<lparr>kw_is_key := Some True\<rparr>)) = KInteger \<and>
     is_key (FieldInteger (no_kwargs\<lparr>kw_is_key := Some True\<rparr>))"
proof -
  let ?st = "\<lparr>ms_columns = [], ms_primary_key = None, ms_found_primary = False,
               ms_dct = class_body b name dct\<rparr>"
  from meta_loop_ok[of ?st "class_body b name dct" b] assms
  obtain st' where "meta_loop b (class_body b name dct) ?st = Inr st'"
    "ms_primary_key st' = None"
    "ms_columns st' = map (\<lambda>(a, f). bound_column a f) (fields_of (class_body b name dct))"
    by auto
  then show ?thesis
    by (simp add: ModelMeta_new_def Let_def bind_err_def map_of_dict_set_same
        FieldInteger_def Field_init_def no_kwargs_def or_default_def)
qed

theorem rowid_key_synthesized_witness:
  "key_fields (class_body strict_interpreter ''Note''
      [(''text'', MField (FieldText no_kwargs))]) = [] \<and>
   (\<exists>cls. ModelMeta_new strict_interpreter ''Note''
        [(''text'', MField (FieldText no_kwargs))] = Inr cls \<and>
      columns cls = [''_rowid_'', ''text''] \<and> primary_key cls = ''_rowid_'')"
  using rowid_key_synthesized [of strict_interpreter "''Note''"
      "[(''text'', MField (FieldText no_kwargs))]"]
  by (auto simp: class_body_def key_fields_def FieldText_def Field_init_def no_kwargs_def
      or_default_def bound_column_def dict_set_def strict_interpreter_def)

text \<open>
  C5 (as stated, refuted).  The claim says that a record type in which two fields have
  \<open>is_key=true\<close> is rejected.  The metaclass stores its static variables \<open>_columns\<close>,
  \<open>_tablename\<close> and \<open>_primary_key\<close> in the class body before it looks for fields, so a key
  field declared under one of these names is gone before the loop: the body with the key
  fields \<open>id\<close> and \<open>_tablename\<close> declares two, and is accepted with the key \<open>id\<close>.
\<close>

theorem two_keys_accepted_under_static_name:
  "length (key_fields
      [(''id'', MField (FieldInteger (no_kwargs\<lparr>kw_is_key := Some True\<rparr>))),
       (''_tablename'', MField (FieldInteger (no_kwargs\<lparr>kw_is_key := Some True\<rparr>)))]) = 2 \<and>
   ModelMeta_new strict_interpreter ''Note''
      [(''id'', MField (FieldInteger (no_kwargs\<lparr>kw_is_key := Some True\<rparr>))),
       (''_tablename'', MField (FieldInteger (no_kwargs\<lparr>kw_is_key := Some True\<rparr>)))] =
     Inr \<lparr>tablename = ''Note'', columns = [''id''], primary_key = ''id'',
          members =
            [(''id'', MField
               \<lparr>kind = KInteger, column_name = Some ''id'', is_key = True,
                is_unique = False, allow_null = True, check = False,
                default_value = VInt 0, attr = Some ''id'', auto_now = False,
                auto_now_add = False\<rparr>),
             (''_tablename'', MOther (VStr ''Note'')),
             (''_columns'', MOther (VOther ''_columns'')),
             (''_primary_key'', MOther (VStr ''id''))]\<rparr>"
  by (simp add: ModelMeta_new_def class_body_def key_fields_def bind_err_def Let_def
      FieldInteger_def Field_init_def no_kwargs_def or_default_def bind_field_def
      bound_column_def dict_set_def strict_interpreter_def)

lemma fields_of_set: "set (fields_of d) = {(a, f). (a, MField f) \<in> set d}"
  by (induction d rule: fields_of.induct) auto

lemma class_body_set:
  assumes "distinct (map fst dct)"
  shows "{(a, f). (a, MField f) \<in> set (class_body b name dct)} =
     {(a, f). (a, MField f) \<in> set dct \<and>
        a \<notin> {''_columns'', ''_tablename'', ''_primary_key''}}"
proof -
  let ?d1 = "dict_set (name_slot b) ''_columns'' (MOther (VOther ''_columns'')) dct"
  let ?d2 = "dict_set (name_slot b) ''_tablename'' (MOther VNone) ?d1"
  let ?d3 = "dict_set (name_slot b) ''_primary_key'' (MOther VNone) ?d2"
  have d1: "distinct (map fst ?d1)" using assms by (rule distinct_dict_set)
  then have d2: "distinct (map fst ?d2)" by (rule distinct_dict_set)
  then have d3: "distinct (map fst ?d3)" by (rule distinct_dict_set)
  show ?thesis
    unfolding class_body_def
    by (auto simp: set_dict_set[OF assms] set_dict_set[OF d1] set_dict_set[OF d2]
        set_dict_set[OF d3])
qed

text \<open>
  C5 (amended).  The fields the metaclass sees are those of the class body after it stored
  its three static variables there: the declared fields, except any declared under the
  names \<open>_columns\<close>, \<open>_tablename\<close> or \<open>_primary_key\<close>.  Declaring a record type fails with
  the \<open>TypeError\<close> "Expected a single primary key Field but found two." exactly when two
  (or more) of these fields have \<open>is_key\<close>, and the declaration succeeds exactly when at
  most one has; so a type with two key fields under other names is rejected at declaration
  time and a type with exactly one is accepted.
\<close>

theorem single_primary_key_enforced:
  "(ModelMeta_new b name dct =
      Inl (TypeError ''Expected a single primary key Field but found two.'')) =
     (2 \<le> length (key_fields (class_body b name dct))) \<and>
   (\<exists>cls. ModelMeta_new b name dct = Inr cls) =
     (length (key_fields (class_body b name dct)) \<le> 1) \<and>
   (distinct (map fst dct) \<longrightarrow>
      set (key_fields (class_body b name dct)) =
        {(a, f) \<in> set (key_fields dct).
           a \<notin> {''_columns'', ''_tablename'', ''_primary_key''}})"
proof -
  let ?st = "\<lparr>ms_columns = [], ms_primary_key = None, ms_found_primary = False,
               ms_dct = class_body b name dct\<rparr>"
  have s: "set (key_fields (class_body b name dct)) =
        {(a, f) \<in> set (key_fields dct).
           a \<notin> {''_columns'', ''_tablename'', ''_primary_key''}}"
    if "distinct (map fst dct)"
    using class_body_set[OF that, of b name]
    by (auto simp: key_fields_def fields_of_set)
  show ?thesis
  proof (cases "2 \<le> length (key_fields (class_body b name dct))")
    case True
    then have "ModelMeta_new b name dct =
        Inl (TypeError ''Expected a single primary key Field but found two.'')"
      by (simp add: ModelMeta_new_def Let_def bind_err_def meta_loop_two_keys)
    with True s show ?thesis by simp
  next
    case False
    with meta_loop_ok[of ?st "class_body b name dct" b]
    obtain st' where "meta_loop b (class_body b name dct) ?st = Inr st'" by auto
    then have "\<exists>cls. ModelMeta_new b name dct = Inr cls"
      by (simp add: ModelMeta_new_def Let_def bind_err_def split: option.splits)
    with False s show ?thesis by auto
  qed
qed

theorem single_primary_key_enforced_witness:
  "ModelMeta_new strict_interpreter ''Note''
     [(''id'', MField (FieldInteger (no_kwargs\<lparr>kw_is_key := Some True\<rparr>))),
      (''other'', MField (FieldInteger (no_kwargs\<lparr>kw_is_key := Some True\<rparr>)))] =
     Inl (TypeError ''Expected a single primary key Field but found two.'') \<and>
   (\<exists>cls. ModelMeta_new strict_interpreter ''Note''
     [(''id'', MField (FieldInteger (no_kwargs\<lparr>kw_is_key := Some True\<rparr>))),
      (''text'', MField (FieldText no_kwargs))] = Inr cls) \<and>
   distinct (map fst
     [(''id'', MField (FieldInteger (no_kwargs\<lparr>kw_is_key := Some True\<rparr>))),
      (''other'', MField (FieldInteger (no_kwargs\<lparr>kw_is_key := Some True\<rparr>)))]) \<and>
   length (key_fields (class_body strict_interpreter ''Note''
     [(''id'', MField (FieldInteger (no_kwargs\<lparr>kw_is_key := Some True\<rparr>))),
      (''other'', MField (FieldInteger (no_kwargs\<lparr>kw_is_key := Some True\<rparr>)))])) = 2"
  using single_primary_key_enforced [of strict_interpreter "''Note''"
     "[(''id'', MField (FieldInteger (no_kwargs\<lparr>kw_is_key := Some True\<rparr>))),
       (''other'', MField (FieldInteger (no_kwargs\<lparr>kw_is_key := Some True\<rparr>)))]"]
    single_primary_key_enforced [of strict_interpreter "''Note''"
     "[(''id'', MField (FieldInteger (no_kwargs\<lparr>kw_is_key := Some True\<rparr>))),
       (''text'', MField (FieldText no_kwargs))]"]
  by (simp add: class_body_def key_fields_def FieldText_def FieldInteger_def Field_init_def
      no_kwargs_def or_default_def dict_set_def strict_interpreter_def)

section \<open>The query builder\<close>


lemma check_columns_None:
  "(check_columns cls ks = None) = (set ks \<subseteq> set (map Some (columns cls)))"
  by (induction ks) auto

lemma check_columns_Some:
  "check_columns cls ks = Some e \<Longrightarrow>
   \<exists>k \<in> set ks. k \<notin> set (map Some (columns cls)) \<and> e = unknown_column cls k"
  by (induction ks) (auto split: if_splits)

text \<open>
  C3 (as stated, refuted).  The claim says that the parameter list of an UPDATE is the data
  values followed by the where values.  For \<open>Note\<close>, updating \<open>text\<close> to \<open>x\<close> where \<open>id\<close> is
  \<open>5\<close>, the list passed to the engine has a third element, the \<open>1\<close> of the sentinel
  condition \<open>1 = ?\<close>, and the entries are written \<open>col = ?\<close>, with spaces.  The sentinel
  stands where the dictionary iterates its key: before \<open>id\<close> for an interpreter that
  iterates the key \<open>1\<close> first, after it for one that iterates in the order of storing.
\<close>

theorem update_binds_sentinel_parameter:
  "generate_query sentinel_first_interpreter Note_class ''UPDATE''
     [(Some ''id'', VInt 5)] [(Some ''text'', VStr ''x'')] =
     Inr (''UPDATE Note SET text = ? WHERE 1 = ? AND id = ?'', [VStr ''x'', VInt 1, VInt 5]) \<and>
   [VStr ''x'', VInt 1, VInt 5] \<noteq>
     map snd [(Some ''text'', VStr ''x'')] @ map snd [(Some ''id'', VInt 5)] \<and>
   generate_query strict_interpreter Note_class ''UPDATE''
     [(Some ''id'', VInt 5)] [(Some ''text'', VStr ''x'')] =
     Inr (''UPDATE Note SET text = ? WHERE id = ? AND 1 = ?'', [VStr ''x'', VInt 5, VInt 1]) \<and>
   [VStr ''x'', VInt 5, VInt 1] \<noteq>
     map snd [(Some ''text'', VStr ''x'')] @ map snd [(Some ''id'', VInt 5)]"
  by (simp add: Note_class_def generate_query_def key_str_def py_upper_def upper_char_def
      dict_set_def strict_interpreter_def sentinel_first_interpreter_def)

text \<open>
  C3 (amended).  For every data map and where map over known columns, building an UPDATE
  (the operation in any letter case) produces the text
  \<open>UPDATE <table> SET <data col> = ? AND <data col> = ? ... WHERE <cond>\<close>: the SET entries
  are \<open><col> = ?\<close> in data-map order, separated by \<open>AND\<close> and not by commas, and \<open><cond>\<close>
  is the entries \<open><col> = ?\<close> of the where map after the sentinel \<open>1\<close> with value \<open>1\<close> was
  stored in it, joined by \<open>AND\<close> in the iteration order of that dictionary.  The parameter
  list is the data values in data-map order followed by the values of that where map in
  the same iteration order, sentinel included: when no where key is \<open>1\<close>, these are the
  where values and the sentinel's \<open>1\<close>, in the order the interpreter iterates them.
\<close>

theorem update_statement_and_parameters:
  assumes "set (map fst wher @ map fst data) \<subseteq> set (map Some (columns cls))"
    and "py_upper query = ''UPDATE''"
  shows "generate_query b cls query wher data =
     Inr (''UPDATE '' @ tablename cls @ '' SET '' @
            join '' AND '' (map (\<lambda>(k, v). key_str k @ '' = ?'') data) @ '' WHERE '' @
            join '' AND '' (map (\<lambda>(k, v). key_str k @ '' = ?'')
               (dict_set (key_slot b) (Some ''1'') (VInt 1) wher)),
          map snd data @ map snd (dict_set (key_slot b) (Some ''1'') (VInt 1) wher)) \<and>
     (Some ''1'' \<notin> fst ` set wher \<longrightarrow>
        mset (dict_set (key_slot b) (Some ''1'') (VInt 1) wher) =
          mset wher + {#(Some ''1'', VInt 1)#})"
proof -
  let ?ks = "map fst (dict_of_items (key_slot b) [] (wher @ data))"
  have s: "set ?ks = set (map fst wher @ map fst data)"
    by (simp add: keys_dict_of_items image_Un)
  with assms(1) have "check_columns cls ?ks = None"
    unfolding check_columns_None by simp
  then show ?thesis using assms(2)
    by (simp add: generate_query_def Let_def case_prod_unfold comp_def mset_dict_set_new)
qed

theorem update_statement_and_parameters_witness:
  "set (map fst [(Some ''id'', VInt 5)] @ map fst [(Some ''text'', VStr ''x'')]) \<subseteq>
     set (map Some (columns Note_class)) \<and>
   py_upper ''update'' = ''UPDATE'' \<and> Some ''1'' \<notin> fst ` set [(Some ''id'', VInt 5)] \<and>
   generate_query sentinel_first_interpreter Note_class ''update''
     [(Some ''id'', VInt 5)] [(Some ''text'', VStr ''x'')] =
     Inr (''UPDATE Note SET text = ? WHERE 1 = ? AND id = ?'', [VStr ''x'', VInt 1, VInt 5])"
  using update_statement_and_parameters [of "[(Some ''id'', VInt 5)]"
      "[(Some ''text'', VStr ''x'')]" Note_class "''update''" sentinel_first_interpreter]
  by (simp add: Note_class_def key_str_def py_upper_def upper_char_def dict_set_def
      sentinel_first_interpreter_def)

text \<open>
  C7.  Whatever the operation, when some key of the where map or of the data map is not a
  column of the schema, the query builder produces no SQL: the call fails with the
  \<open>TypeError\<close> "Found unknown column k. Model only supports columns c1, c2, ...." whose
  message names such an offending key \<open>k\<close> and lists all the columns of the schema.
\<close>

theorem unknown_column_rejected:
  assumes "\<exists>k \<in> set (map fst wher @ map fst data). k \<notin> set (map Some (columns cls))"
  shows "\<exists>k \<in> set (map fst wher @ map fst data). k \<notin> set (map Some (columns cls)) \<and>
    generate_query b cls query wher data =
      Inl (TypeError (''Found unknown column '' @ key_str k @
                ''. Model only supports columns '' @ join '', '' (columns cls) @ ''.''))"
proof -
  let ?ks = "map fst (dict_of_items (key_slot b) [] (wher @ data))"
  have s: "set ?ks = set (map fst wher @ map fst data)"
    by (simp add: keys_dict_of_items image_Un)
  with assms have "check_columns cls ?ks \<noteq> None"
    unfolding check_columns_None by blast
  then obtain e where e: "check_columns cls ?ks = Some e" by auto
  from check_columns_Some[OF e] obtain k where
    "k \<in> set ?ks" "k \<notin> set (map Some (columns cls))" "e = unknown_column cls k" by auto
  with e s show ?thesis
    by (auto simp: generate_query_def unknown_column_def)
qed

theorem unknown_column_rejected_witness:
  "(\<exists>k \<in> set (map fst [(Some ''idx'', VInt 5)] @ map fst []).
      k \<notin> set (map Some (columns Note_class))) \<and>
   generate_query strict_interpreter Note_class ''SELECT'' [(Some ''idx'', VInt 5)] [] =
     Inl (TypeError ''Found unknown column idx. Model only supports columns id, text.'')"
  using unknown_column_rejected [of "[(Some ''idx'', VInt 5)]" "[]" Note_class
      strict_interpreter "''SELECT''"]
  by (simp add: Note_class_def key_str_def)

section \<open>Reading rows\<close>

text \<open>
  C8.  When the SELECT that \<open>get\<close> or \<open>filter\<close> builds from its filter argument is executed
  and yields no rows, \<open>get\<close> returns the none-value and \<open>filter\<close> returns the empty
  sequence; neither raises.
\<close>

theorem no_match_is_not_an_error:
  assumes "generate_query b cls ''SELECT''
       (if ident \<noteq> VNone then [(Some (primary_key cls), ident)] else str_keys kwargs) [] =
       Inr (statement, query_list)"
    and "execute statement query_list = Inr cur" and "rows cur = []"
  shows "get b execute cls ident kwargs = Inr None \<and>
     (ident = VNone \<longrightarrow> filter_model b execute cls kwargs = Inr [])"
  using assms
  by (auto simp: get_def filter_model_def Let_def bind_err_def fetchone_def
      result_to_model_def)

theorem no_match_is_not_an_error_witness:
  "generate_query strict_interpreter Note_class ''SELECT''
       (if VNone \<noteq> VNone then [(Some (primary_key Note_class), VNone)]
        else str_keys [(''text'', VStr ''hello'')]) [] =
       Inr (''SELECT id, text FROM Note WHERE text = ? AND 1 = ?'', [VStr ''hello'', VInt 1]) \<and>
   get strict_interpreter (\<lambda>s q. Inr \<lparr>rows = [], lastrowid = VNone\<rparr>) Note_class VNone
     [(''text'', VStr ''hello'')] = Inr None \<and>
   filter_model strict_interpreter (\<lambda>s q. Inr \<lparr>rows = [], lastrowid = VNone\<rparr>) Note_class
     [(''text'', VStr ''hello'')] = Inr []"
  using no_match_is_not_an_error [of strict_interpreter Note_class VNone
     "[(''text'', VStr ''hello'')]"
     "''SELECT id, text FROM Note WHERE text = ? AND 1 = ?''" "[VStr ''hello'', VInt 1]"
     "\<lambda>s q. Inr \<lparr>rows = [], lastrowid = VNone\<rparr>" "\<lparr>rows = [], lastrowid = VNone\<rparr>"]
  by (simp add: Note_class_def generate_query_def str_keys_def key_str_def py_upper_def
      upper_char_def dict_set_def strict_interpreter_def)

section \<open>The class dictionary\<close>

lemma class_body_distinct:
  "distinct (map fst dct) \<Longrightarrow> distinct (map fst (class_body b name dct))"
  by (simp add: class_body_def distinct_dict_set)

lemma map_of_class_body:
  assumes "distinct (map fst dct)"
  shows "map_of (class_body b name dct) n =
     (if n = ''_tablename'' then Some (MOther (VStr name))
      else if n = ''_primary_key'' then Some (MOther VNone)
      else if n = ''_columns'' then Some (MOther (VOther ''_columns''))
      else map_of dct n)"
proof -
  let ?d1 = "dict_set (name_slot b) ''_columns'' (MOther (VOther ''_columns'')) dct"
  let ?d2 = "dict_set (name_slot b) ''_tablename'' (MOther VNone) ?d1"
  let ?d3 = "dict_set (name_slot b) ''_primary_key'' (MOther VNone) ?d2"
  have d1: "distinct (map fst ?d1)" using assms by (rule distinct_dict_set)
  then have d2: "distinct (map fst ?d2)" by (rule distinct_dict_set)
  then have d3: "distinct (map fst ?d3)" by (rule distinct_dict_set)
  show ?thesis
    unfolding class_body_def
    by (simp add: map_of_dict_set[OF assms] map_of_dict_set[OF d1] map_of_dict_set[OF d2]
        map_of_dict_set[OF d3])
qed

lemma fst_bind_member [simp]: "fst (bind_member p) = fst p"
  by (cases p rule: bind_member.cases) auto

lemma map_of_bind_member:
  "map_of (map bind_member d) n =
     (case map_of d n of None \<Rightarrow> None
      | Some (MField f) \<Rightarrow> Some (MField (bind_field n f))
      | Some (MOther v) \<Rightarrow> Some (MOther v))"
proof (induction d)
  case Nil
  then show ?case by simp
next
  case (Cons p d)
  then show ?case by (cases p rule: bind_member.cases) auto
qed


text \<open>The class dictionary and the key that the metaclass leaves.\<close>

lemma meta_members:
  assumes "distinct (map fst dct)" and "ModelMeta_new b name dct = Inr cls"
  shows "members cls =
     (case key_fields (class_body b name dct) of
        [] \<Rightarrow> dict_set (name_slot b) ''_rowid_''
               (MField (FieldInteger (no_kwargs\<lparr>kw_is_key := Some True\<rparr>)))
               (dict_set (name_slot b) ''_primary_key'' (MOther (VStr ''_rowid_''))
                  (map bind_member (class_body b name dct)))
      | (a, f) # _ \<Rightarrow> dict_set (name_slot b) ''_primary_key''
                  (MOther (VStr (bound_column a f)))
                  (map bind_member (class_body b name dct)))"
    and "primary_key cls =
     (case key_fields (class_body b name dct) of [] \<Rightarrow> ''_rowid_''
      | (a, f) # _ \<Rightarrow> bound_column a f)"
    and "tablename cls = name"
proof -
  let ?body = "class_body b name dct"
  let ?st = "\<lparr>ms_columns = [], ms_primary_key = None, ms_found_primary = False,
               ms_dct = ?body\<rparr>"
  from assms(2) obtain st' where st': "meta_loop b ?body ?st = Inr st'"
    by (auto simp: ModelMeta_new_def Let_def bind_err_def split: sum.splits)
  have le: "length (key_fields ?body) \<le> 1"
  proof (rule ccontr)
    assume "\<not> length (key_fields ?body) \<le> 1"
    then have "meta_loop b ?body ?st =
        Inl (TypeError ''Expected a single primary key Field but found two.'')"
      by (intro meta_loop_two_keys) simp
    with st' show False by simp
  qed
  from meta_loop_ok[of ?st ?body b] le st'
  have pk: "ms_primary_key st' =
       (case key_fields ?body of [] \<Rightarrow> None | (a, f) # _ \<Rightarrow> Some (bound_column a f))"
    by (auto split: list.splits)
  from meta_loop_dct[of "[]" ?body ?st b st'] assms(1) st'
  have dct: "ms_dct st' = map bind_member ?body"
    by (simp add: class_body_distinct)
  from assms(2) st' pk dct
  show "members cls =
     (case key_fields ?body of
        [] \<Rightarrow> dict_set (name_slot b) ''_rowid_''
               (MField (FieldInteger (no_kwargs\<lparr>kw_is_key := Some True\<rparr>)))
               (dict_set (name_slot b) ''_primary_key'' (MOther (VStr ''_rowid_''))
                  (map bind_member ?body))
      | (a, f) # _ \<Rightarrow> dict_set (name_slot b) ''_primary_key''
                  (MOther (VStr (bound_column a f)))
                  (map bind_member ?body))"
    by (auto simp: ModelMeta_new_def Let_def bind_err_def split: list.splits)
  from assms(2) st' pk
  show "primary_key cls =
     (case key_fields ?body of [] \<Rightarrow> ''_rowid_'' | (a, f) # _ \<Rightarrow> bound_column a f)"
    by (auto simp: ModelMeta_new_def Let_def bind_err_def split: list.splits)
  from assms(2) st' show "tablename cls = name"
    by (auto simp: ModelMeta_new_def Let_def bind_err_def split: option.splits)
qed

lemma bound_body_distinct:
  "distinct (map fst dct) \<Longrightarrow> distinct (map fst (map bind_member (class_body b name dct)))"
  using class_body_distinct[of dct b name] by (simp add: comp_def)

lemma attr_rowid_field [simp]:
  "attr (FieldInteger (no_kwargs\<lparr>kw_is_key := Some True\<rparr>)) = None"
  "column_name (FieldInteger (no_kwargs\<lparr>kw_is_key := Some True\<rparr>)) = None"
  "kind (FieldInteger (no_kwargs\<lparr>kw_is_key := Some True\<rparr>)) = KInteger"
  "default_value (FieldInteger (no_kwargs\<lparr>kw_is_key := Some True\<rparr>)) = VInt 0"
  "is_key (FieldInteger (no_kwargs\<lparr>kw_is_key := Some True\<rparr>))"
  by (simp_all add: FieldInteger_def Field_init_def no_kwargs_def or_default_def)

lemma attr_bind_field [simp]: "attr (bind_field a f) = Some a"
  by (simp add: bind_field_def)


text \<open>
  \<open>Model_members\<close> is, name by name, the class dictionary the metaclass makes of the body
  of \<open>Model\<close>, whatever the order of its items.
\<close>

lemma Model_members_made:
  "\<exists>c. ModelMeta_new b ''Model'' Model_body = Inr c \<and>
       (\<forall>n. map_of (members c) n = map_of Model_members n)"
proof -
  have d: "distinct (map fst Model_body)" by (simp add: Model_body_def)
  have "set (fields_of (class_body b ''Model'' Model_body)) = {}"
    using class_body_set[OF d, of b "''Model''"]
    by (auto simp: fields_of_set Model_body_def)
  then have k: "key_fields (class_body b ''Model'' Model_body) = []"
    by (simp add: key_fields_def)
  from rowid_key_synthesized[OF k] obtain c where
    c: "ModelMeta_new b ''Model'' Model_body = Inr c" by blast
  have "map_of (members c) n = map_of Model_members n" for n
  proof -
    have "map_of (members c) n =
       (if n = ''_rowid_''
        then Some (MField (FieldInteger (no_kwargs\<lparr>kw_is_key := Some True\<rparr>)))
        else if n = ''_primary_key'' then Some (MOther (VStr ''_rowid_''))
        else case map_of (class_body b ''Model'' Model_body) n of None \<Rightarrow> None
             | Some (MField g) \<Rightarrow> Some (MField (bind_field n g))
             | Some (MOther v) \<Rightarrow> Some (MOther v))"
      unfolding meta_members(1)[OF d c] k
      using bound_body_distinct[OF d, of b "''Model''"]
      by (simp add: map_of_dict_set distinct_dict_set map_of_bind_member)
    also have "\<dots> = map_of Model_members n"
      unfolding map_of_class_body[OF d]
      by (simp add: Model_members_def Model_body_def)
    finally show ?thesis .
  qed
  with c show ?thesis by blast
qed

section \<open>Hydration of fetched rows\<close>

lemma Visit_class_made:
  "ModelMeta_new strict_interpreter ''Visit'' Visit_body = Inr Visit_class"
  by (simp add: ModelMeta_new_def class_body_def bind_err_def Let_def FieldInteger_def
      FieldText_def Field_init_def no_kwargs_def or_default_def bind_field_def bound_column_def
      Visit_body_def Visit_class_def dict_set_def strict_interpreter_def)

lemma setattr_keeps_unbound_slot:
  assumes "\<And>g. lookup_attr cls n = Some (MField g) \<Longrightarrow> attr g \<noteq> None"
    and "setattr b cls inst n v = Inr inst'"
  shows "map_of (idict inst') None = map_of (idict inst) None"
proof (cases "lookup_attr cls n")
  case None
  with assms(2) show ?thesis by (auto simp: setattr_def map_of_store_attr)
next
  case (Some mem)
  show ?thesis
  proof (cases mem)
    case (MField g)
    with Some assms(1) have "attr g \<noteq> None" by simp
    with assms(2) Some MField show ?thesis
      by (auto simp: setattr_def bind_err_def map_of_store_attr split: sum.splits)
  next
    case (MOther w)
    with assms(2) Some show ?thesis by (auto simp: setattr_def map_of_store_attr)
  qed
qed

lemma init_loop_unbound_slot:
  assumes "\<And>a g g'. (a, MField g) \<in> set items \<Longrightarrow> a \<noteq> ''_rowid_'' \<Longrightarrow>
             lookup_attr cls a = Some (MField g') \<Longrightarrow> attr g' \<noteq> None"
    and "\<And>g. (''_rowid_'', MField g) \<in> set items \<Longrightarrow> default_value g = VInt 0"
    and "lookup_attr cls ''_rowid_'' =
           Some (MField (FieldInteger (no_kwargs\<lparr>kw_is_key := Some True\<rparr>)))"
    and "init_loop b cls [] items inst = Inr inst'"
  shows "map_of (idict inst') None =
     (if \<exists>g. (''_rowid_'', MField g) \<in> set items then Some (VInt 0)
      else map_of (idict inst) None)"
  using assms(1,2,4)
proof (induction items arbitrary: inst)
  case Nil
  then show ?case by simp
next
  case (Cons p rest)
  obtain a m where p: "p = (a, m)" by (cases p)
  show ?case
  proof (cases m)
    case (MOther w)
    with Cons p show ?thesis by auto
  next
    case (MField f)
    from Cons.prems(3) p MField obtain inst1 where
      s: "setattr b cls inst a (default_value f) = Inr inst1" and
      r: "init_loop b cls [] rest inst1 = Inr inst'"
      by (auto simp: bind_err_def split: sum.splits)
    have ih: "map_of (idict inst') None =
       (if \<exists>g. (''_rowid_'', MField g) \<in> set rest then Some (VInt 0)
        else map_of (idict inst1) None)"
    proof (rule Cons.IH[OF _ _ r])
      show "\<And>a g g'. (a, MField g) \<in> set rest \<Longrightarrow> a \<noteq> ''_rowid_'' \<Longrightarrow>
             lookup_attr cls a = Some (MField g') \<Longrightarrow> attr g' \<noteq> None"
        using Cons.prems(1) by (meson list.set_intros(2))
      show "\<And>g. (''_rowid_'', MField g) \<in> set rest \<Longrightarrow> default_value g = VInt 0"
        using Cons.prems(2) by (meson list.set_intros(2))
    qed
    show ?thesis
    proof (cases "a = ''_rowid_''")
      case True
      with Cons.prems(2)[of f] p MField have "default_value f = VInt 0" by simp
      with s True assms(3) have "map_of (idict inst1) None = Some (VInt 0)"
        by (auto simp: setattr_def bind_err_def validate_def FieldInteger_validate_def
            map_of_store_attr)
      with ih True p MField show ?thesis by auto
    next
      case False
      have "\<And>g'. lookup_attr cls a = Some (MField g') \<Longrightarrow> attr g' \<noteq> None"
        using Cons.prems(1)[of a f] False p MField by simp
      from setattr_keeps_unbound_slot[OF this s]
      have "map_of (idict inst1) None = map_of (idict inst) None" .
      with ih False p MField show ?thesis by auto
    qed
  qed
qed

lemma hydrate_column_unbound_slot:
  assumes "\<And>a g g'. (a, MField g) \<in> set items \<Longrightarrow> column_name g = Some col \<Longrightarrow>
             lookup_attr cls a = Some (MField g') \<Longrightarrow> attr g' \<noteq> None"
    and "hydrate_column b cls row i col items out = Inr out'"
  shows "map_of (idict out') None = map_of (idict out) None"
  using assms
proof (induction items arbitrary: out)
  case Nil
  then show ?case by simp
next
  case (Cons p rest)
  obtain a m where p: "p = (a, m)" by (cases p)
  have rest: "\<And>a g g'. (a, MField g) \<in> set rest \<Longrightarrow> column_name g = Some col \<Longrightarrow>
             lookup_attr cls a = Some (MField g') \<Longrightarrow> attr g' \<noteq> None"
    using Cons.prems(1) by (meson list.set_intros(2))
  show ?case
  proof (cases m)
    case (MOther w)
    with Cons.prems(2) p Cons.IH[OF rest] show ?thesis by auto
  next
    case (MField f)
    show ?thesis
    proof (cases "column_name f = Some col")
      case True
      with Cons.prems(2) p MField obtain v out1 where
        s: "setattr b cls out a v = Inr out1" and
        r: "hydrate_column b cls row i col rest out1 = Inr out'"
        by (auto simp: bind_err_def split: sum.splits)
      have "\<And>g'. lookup_attr cls a = Some (MField g') \<Longrightarrow> attr g' \<noteq> None"
        using Cons.prems(1)[of a f] True p MField by simp
      from setattr_keeps_unbound_slot[OF this s]
      have "map_of (idict out1) None = map_of (idict out) None" .
      with Cons.IH[OF rest r] show ?thesis by simp
    next
      case False
      with Cons.prems(2) p MField Cons.IH[OF rest] show ?thesis by auto
    qed
  qed
qed

lemma hydrate_columns_unbound_slot:
  assumes "\<And>col a g g'. (a, MField g) \<in> set (members cls) \<Longrightarrow> column_name g = Some col \<Longrightarrow>
             lookup_attr cls a = Some (MField g') \<Longrightarrow> attr g' \<noteq> None"
    and "hydrate_columns b cls row idxs out = Inr out'"
  shows "map_of (idict out') None = map_of (idict out) None"
  using assms(2)
proof (induction idxs arbitrary: out)
  case Nil
  then show ?case by simp
next
  case (Cons i idxs)
  then obtain out1 where
    h: "hydrate_column b cls row i (columns cls ! i) (members cls) out = Inr out1" and
    r: "hydrate_columns b cls row idxs out1 = Inr out'"
    by (auto simp: bind_err_def split: sum.splits)
  from hydrate_column_unbound_slot[OF _ h] assms(1)
  have "map_of (idict out1) None = map_of (idict out) None" by blast
  with Cons.IH[OF r] show ?case by simp
qed

text \<open>The class dictionary of a type with no declared key, name by name.\<close>

lemma no_key_members:
  assumes "distinct (map fst dct)" and "key_fields (class_body b name dct) = []"
    and "ModelMeta_new b name dct = Inr cls"
  shows "primary_key cls = ''_rowid_''"
    and "map_of (members cls) n =
      (if n = ''_rowid_''
       then Some (MField (FieldInteger (no_kwargs\<lparr>kw_is_key := Some True\<rparr>)))
       else if n = ''_primary_key'' then Some (MOther (VStr ''_rowid_''))
       else case map_of (class_body b name dct) n of None \<Rightarrow> None
            | Some (MField g) \<Rightarrow> Some (MField (bind_field n g))
            | Some (MOther v) \<Rightarrow> Some (MOther v))"
    and "distinct (map fst (members cls))"
proof -
  from meta_members[OF assms(1,3)] assms(2)
  show "primary_key cls = ''_rowid_''"
    and "map_of (members cls) n =
      (if n = ''_rowid_''
       then Some (MField (FieldInteger (no_kwargs\<lparr>kw_is_key := Some True\<rparr>)))
       else if n = ''_primary_key'' then Some (MOther (VStr ''_rowid_''))
       else case map_of (class_body b name dct) n of None \<Rightarrow> None
            | Some (MField g) \<Rightarrow> Some (MField (bind_field n g))
            | Some (MOther v) \<Rightarrow> Some (MOther v))"
    using bound_body_distinct[OF assms(1), of b name]
    by (simp_all add: map_of_dict_set distinct_dict_set map_of_bind_member)
  from meta_members(1)[OF assms(1,3)] assms(2) bound_body_distinct[OF assms(1), of b name]
  show "distinct (map fst (members cls))"
    by (simp add: distinct_dict_set)
qed

lemma result_to_model_rowid:
  assumes "distinct (map fst dct)" and "key_fields (class_body b name dct) = []"
    and "ModelMeta_new b name dct = Inr cls"
    and "result_to_model b cls (Some row) = Inr (Some out)"
  shows "getattr cls out ''_rowid_'' = Inr (VInt 0)"
proof -
  let ?synth = "FieldInteger (no_kwargs\<lparr>kw_is_key := Some True\<rparr>)"
  note m = no_key_members[OF assms(1-3)]
  have own: "lookup_attr cls a = Some (MField g)" if "(a, MField g) \<in> set (members cls)"
    for a g
    using that m(3) by (simp add: lookup_attr_def)
  have key: "lookup_attr cls ''_rowid_'' = Some (MField ?synth)"
    using m(2)[of "''_rowid_''"] by (simp add: lookup_attr_def)
  have shape: "(a = ''_rowid_'' \<and> g = ?synth) \<or> (a \<noteq> ''_rowid_'' \<and> attr g = Some a)"
    if "(a, MField g) \<in> set (members cls)" for a g
  proof -
    from that m(3) have "map_of (members cls) a = Some (MField g)" by simp
    with m(2)[of a] show ?thesis
      by (auto split: if_splits option.splits member.splits)
  qed
  from assms(4) obtain out0 where
    i: "Model_init b cls [] = Inr out0" and
    h: "hydrate_columns b cls row [0..<length (columns cls)] (out0\<lparr>saved := True\<rparr>) = Inr out"
    by (auto simp: result_to_model_def bind_err_def split: sum.splits)
  have "(''_rowid_'', MField ?synth) \<in> set (members cls)"
    using m(2)[of "''_rowid_''"] by (simp add: map_of_SomeD)
  moreover have "map_of (idict out0) None =
     (if \<exists>g. (''_rowid_'', MField g) \<in> set (members cls) then Some (VInt 0)
      else map_of (idict \<lparr>idict = [], saved = False\<rparr>) None)"
  proof (rule init_loop_unbound_slot[OF _ _ key])
    show "init_loop b cls [] (members cls) \<lparr>idict = [], saved = False\<rparr> = Inr out0"
      using i by (simp add: Model_init_def)
    show "\<And>a g g'. (a, MField g) \<in> set (members cls) \<Longrightarrow> a \<noteq> ''_rowid_'' \<Longrightarrow>
             lookup_attr cls a = Some (MField g') \<Longrightarrow> attr g' \<noteq> None"
      using own shape by fastforce
    show "\<And>g. (''_rowid_'', MField g) \<in> set (members cls) \<Longrightarrow> default_value g = VInt 0"
      using shape by fastforce
  qed
  ultimately have init: "map_of (idict out0) None = Some (VInt 0)" by auto
  have "map_of (idict out) None = map_of (idict (out0\<lparr>saved := True\<rparr>)) None"
  proof (rule hydrate_columns_unbound_slot[OF _ h])
    fix col a g g'
    assume "(a, MField g) \<in> set (members cls)" "column_name g = Some col"
      "lookup_attr cls a = Some (MField g')"
    with own[of a g] shape[of a g] show "attr g' \<noteq> None" by auto
  qed
  with init have "map_of (idict out) None = Some (VInt 0)" by simp
  with key show ?thesis by (simp add: getattr_def)
qed

lemma filter_rows_rowid:
  assumes "distinct (map fst dct)" and "key_fields (class_body b name dct) = []"
    and "ModelMeta_new b name dct = Inr cls"
    and "filter_rows b cls rs = Inr outs"
  shows "\<forall>x \<in> set outs. \<exists>out. x = Some out \<and> getattr cls out ''_rowid_'' = Inr (VInt 0)"
  using assms(4)
proof (induction rs arbitrary: outs)
  case Nil
  then show ?case by simp
next
  case (Cons r rs)
  then obtain x xs where
    x: "result_to_model b cls (Some r) = Inr x" and
    xs: "filter_rows b cls rs = Inr xs" and o: "outs = x # xs"
    by (auto simp: bind_err_def split: sum.splits)
  from x obtain out where "x = Some out"
    by (auto simp: result_to_model_def bind_err_def split: sum.splits)
  with x result_to_model_rowid[OF assms(1-3), of r out]
  have "\<exists>out. x = Some out \<and> getattr cls out ''_rowid_'' = Inr (VInt 0)" by simp
  with Cons.IH[OF xs] o show ?case by simp
qed

text \<open>
  C10 (as stated, refuted).  The claim says that the row-id value of a fetched row is never
  assigned to any field.  \<open>Visit\<close> declares no key and stores its field \<open>rid\<close> in the column
  \<open>_rowid_\<close>: hydration of the column at index 0, the row identifier, assigns the value
  \<open>7\<close> of the row to the field \<open>rid\<close>, which the returned instance holds, while the key
  attribute (stored under \<open>None\<close>) stays \<open>0\<close>.
\<close>

theorem rowid_value_reaches_declared_field:
  "ModelMeta_new strict_interpreter ''Visit'' Visit_body = Inr Visit_class \<and>
   columns Visit_class ! 0 = ''_rowid_'' \<and>
   Model_init strict_interpreter Visit_class [] =
     Inr \<lparr>idict = [(Some ''rid'', VInt 0), (Some ''text'', VStr ''None''), (None, VInt 0)],
          saved = False\<rparr> \<and>
   hydrate_column strict_interpreter Visit_class [VInt 7, VInt 7, VStr ''x''] 0 ''_rowid_''
     (members Visit_class)
     \<lparr>idict = [(Some ''rid'', VInt 0), (Some ''text'', VStr ''None''), (None, VInt 0)],
      saved = True\<rparr> =
     Inr \<lparr>idict = [(Some ''rid'', VInt 7), (Some ''text'', VStr ''None''), (None, VInt 0)],
          saved = True\<rparr> \<and>
   result_to_model strict_interpreter Visit_class (Some [VInt 7, VInt 7, VStr ''x'']) =
     Inr (Some \<lparr>idict = [(Some ''rid'', VInt 7), (Some ''text'', VStr ''x''), (None, VInt 0)],
                saved = True\<rparr>)"
  using Visit_class_made
  by (simp add: Visit_class_def Model_init_def setattr_def lookup_attr_def validate_def
      FieldInteger_validate_def FieldText_validate_def bind_err_def row_item_def
      from_db_format_def result_to_model_def upt_rec)

text \<open>
  C10 (amended).  For every record type with a synthesized row-id key, the synthesized
  Integer field is made after the loop that binds attribute names and column names, so its
  \<open>column_name\<close> (and its \<open>attr\<close>) stay unset and its default is \<open>0\<close>.  Hydration
  assigns a row's values only to fields whose \<open>column_name\<close> is the schema column, so no
  value of a fetched row is ever assigned to the synthesized key field: every instance that
  \<open>_result_to_model\<close>, \<open>get\<close> or \<open>filter\<close> returns has the key attribute \<open>_rowid_\<close> at
  its default \<open>0\<close>, not at the row id.  (A declared field whose own column is named
  \<open>_rowid_\<close> does receive the row id.)
\<close>

theorem synthesized_key_never_hydrated:
  assumes "distinct (map fst dct)" and "key_fields (class_body b name dct) = []"
    and "ModelMeta_new b name dct = Inr cls"
  shows "map_of (members cls) ''_rowid_'' =
       Some (MField (FieldInteger (no_kwargs\<lparr>kw_is_key := Some True\<rparr>))) \<and>
     column_name (FieldInteger (no_kwargs\<lparr>kw_is_key := Some True\<rparr>)) = None \<and>
     attr (FieldInteger (no_kwargs\<lparr>kw_is_key := Some True\<rparr>)) = None \<and>
     default_value (FieldInteger (no_kwargs\<lparr>kw_is_key := Some True\<rparr>)) = VInt 0 \<and>
     (result_to_model b cls (Some row) = Inr (Some out) \<longrightarrow>
        getattr cls out ''_rowid_'' = Inr (VInt 0)) \<and>
     (get b execute cls ident kwargs = Inr (Some out) \<longrightarrow>
        getattr cls out ''_rowid_'' = Inr (VInt 0)) \<and>
     (filter_model b execute cls kwargs = Inr outs \<longrightarrow>
        (\<forall>x \<in> set outs. \<exists>y. x = Some y \<and> getattr cls y ''_rowid_'' = Inr (VInt 0)))"
proof -
  have g: "getattr cls out ''_rowid_'' = Inr (VInt 0)"
    if "get b execute cls ident kwargs = Inr (Some out)"
  proof -
    from that obtain cur :: cursor where
      "result_to_model b cls (fetchone cur) = Inr (Some out)"
      by (auto simp: get_def Let_def bind_err_def split: sum.splits prod.splits)
    moreover from this obtain r where "fetchone cur = Some r"
      by (cases "fetchone cur") (auto simp: result_to_model_def)
    ultimately show ?thesis
      using result_to_model_rowid[OF assms, of r out] by simp
  qed
  have f: "\<forall>x \<in> set outs. \<exists>y. x = Some y \<and> getattr cls y ''_rowid_'' = Inr (VInt 0)"
    if "filter_model b execute cls kwargs = Inr outs"
  proof -
    from that obtain cur :: cursor where "filter_rows b cls (rows cur) = Inr outs"
      by (auto simp: filter_model_def bind_err_def split: sum.splits prod.splits)
    then show ?thesis by (rule filter_rows_rowid[OF assms])
  qed
  from no_key_members(2)[OF assms, of "''_rowid_''"] g f
    result_to_model_rowid[OF assms, of row out]
  show ?thesis by simp
qed

theorem synthesized_key_never_hydrated_witness:
  "distinct (map fst Visit_body) \<and> key_fields (class_body strict_interpreter ''Visit'' Visit_body) = [] \<and>
   ModelMeta_new strict_interpreter ''Visit'' Visit_body = Inr Visit_class \<and>
   result_to_model strict_interpreter Visit_class (Some [VInt 7, VInt 7, VStr ''x'']) =
     Inr (Some \<lparr>idict = [(Some ''rid'', VInt 7), (Some ''text'', VStr ''x''), (None, VInt 0)],
                saved = True\<rparr>) \<and>
   get strict_interpreter (\<lambda>s q. Inr \<lparr>rows = [[VInt 7, VInt 7, VStr ''x'']], lastrowid = VNone\<rparr>)
     Visit_class VNone [] =
     Inr (Some \<lparr>idict = [(Some ''rid'', VInt 7), (Some ''text'', VStr ''x''), (None, VInt 0)],
                saved = True\<rparr>) \<and>
   filter_model strict_interpreter
     (\<lambda>s q. Inr \<lparr>rows = [[VInt 7, VInt 7, VStr ''x'']], lastrowid = VNone\<rparr>)
     Visit_class [] =
     Inr [Some \<lparr>idict = [(Some ''rid'', VInt 7), (Some ''text'', VStr ''x''), (None, VInt 0)],
                saved = True\<rparr>] \<and>
   getattr Visit_class
     \<lparr>idict = [(Some ''rid'', VInt 7), (Some ''text'', VStr ''x''), (None, VInt 0)],
      saved = True\<rparr> ''_rowid_'' = Inr (VInt 0)"
proof -
  have r: "result_to_model strict_interpreter Visit_class (Some [VInt 7, VInt 7, VStr ''x'']) =
     Inr (Some \<lparr>idict = [(Some ''rid'', VInt 7), (Some ''text'', VStr ''x''), (None, VInt 0)],
                saved = True\<rparr>)"
    by (simp add: Visit_class_def Model_init_def setattr_def lookup_attr_def validate_def
      FieldInteger_validate_def FieldText_validate_def bind_err_def row_item_def
      from_db_format_def result_to_model_def upt_rec)
  have q: "generate_query strict_interpreter Visit_class ''SELECT'' [] [] =
      Inr (''SELECT _rowid_, _rowid_, text FROM Visit WHERE 1 = ?'', [VInt 1])"
    by (simp add: Visit_class_def generate_query_def key_str_def py_upper_def upper_char_def
        dict_set_def strict_interpreter_def)
  have d: "distinct (map fst Visit_body)" "key_fields (class_body strict_interpreter ''Visit'' Visit_body) = []"
    by (simp_all add: Visit_body_def class_body_def key_fields_def FieldInteger_def
        FieldText_def Field_init_def no_kwargs_def or_default_def dict_set_def
        strict_interpreter_def)
  from synthesized_key_never_hydrated [where dct = Visit_body and name = "''Visit''" and cls = Visit_class
      and b = strict_interpreter and row = "[VInt 7, VInt 7, VStr ''x'']"
      and out = "\<lparr>idict = [(Some ''rid'', VInt 7), (Some ''text'', VStr ''x''),
                (None, VInt 0)], saved = True\<rparr>", OF d Visit_class_made] r q d
    Visit_class_made
  show ?thesis
    by (simp add: get_def filter_model_def str_keys_def fetchone_def bind_err_def)
qed

section \<open>Time stamps on save\<close>

text \<open>
  What \<open>to_db_format\<close> of a DateTime field sends for a value that is a datetime: the moment
  of the call when the field is stamped, which needs a write (\<open>is_query\<close>) and either
  \<open>auto_now\<close> or \<open>auto_now_add\<close> on a first save; the value itself otherwise.
\<close>

lemma to_db_format_DateTime:
  "kind f = KDateTime \<Longrightarrow>
   to_db_format now f (VDateTime d) first_time is_query =
     bind_err
       (strftime (if is_query \<and> (auto_now f \<or> (first_time \<and> auto_now_add f)) then now else d))
       (\<lambda>s. Inr (VStr s))"
  by (auto simp add: to_db_format_def)

lemma Event_class_made:
  "ModelMeta_new strict_interpreter ''Event'' Event_body = Inr Event_class"
  by (simp add: ModelMeta_new_def class_body_def Event_body_def Event_class_def
      strict_interpreter_def dict_set_def bind_field_def Let_def bound_column_def
      FieldDateTime_def FieldText_def FieldInteger_def Field_init_def no_kwargs_def
      or_default_def bind_err_def datetime_min_def)

text \<open>
  C6 (the code departs from the claim).  The claim: a DateTime field with \<open>auto_now_add\<close> is
  stamped with the current time on the first save and left unchanged by later saves.  The
  type \<open>Event\<close> has \<open>created = FieldDateTime(auto_now_add=True)\<close>.  The first save of a new
  \<open>Event()\<close> sends the moment of the save for \<open>created\<close>, but the attribute keeps its default,
  \<open>datetime.min\<close>: \<open>save\<close> never stores the stamp in the instance.  A second save formats the
  attribute, and \<open>strftime\<close> refuses the year 1: the save raises \<open>ValueError\<close>.  When the
  attribute was given a datetime of its own, the second save sends that datetime for
  \<open>created\<close>, so the UPDATE replaces the stamp of the first save in the stored row.
\<close>

theorem auto_now_add_stamp_lost_on_later_save:
  "ModelMeta_new strict_interpreter ''Event'' Event_body = Inr Event_class \<and>
   Model_init strict_interpreter Event_class [] =
     Inr (Event_instance datetime_min (VInt 0) False) \<and>
   save_query strict_interpreter march_2012 Event_class
       (Event_instance datetime_min (VInt 0) False) =
     Inr (''INSERT INTO Event (created, title) VALUES (?, ?)'',
          [VStr ''2012-03-04 05:06:07.000089'', VStr ''None'']) \<and>
   save strict_interpreter march_2012 accepting_engine Event_class
       (Event_instance datetime_min (VInt 0) False) =
     Inr (Event_instance datetime_min (VInt 1) True) \<and>
   save strict_interpreter march_2012 accepting_engine Event_class
       (Event_instance datetime_min (VInt 1) True) = Inl ValueError \<and>
   Model_init strict_interpreter Event_class [(''created'', VDateTime may_2000)] =
     Inr (Event_instance may_2000 (VInt 0) False) \<and>
   save_query strict_interpreter march_2012 Event_class
       (Event_instance may_2000 (VInt 0) False) =
     Inr (''INSERT INTO Event (created, title) VALUES (?, ?)'',
          [VStr ''2012-03-04 05:06:07.000089'', VStr ''None'']) \<and>
   save strict_interpreter march_2012 accepting_engine Event_class
       (Event_instance may_2000 (VInt 0) False) =
     Inr (Event_instance may_2000 (VInt 1) True) \<and>
   save_query strict_interpreter march_2012 Event_class
       (Event_instance may_2000 (VInt 1) True) =
     Inr (''UPDATE Event SET created = ? AND title = ? WHERE _rowid_ = ? AND 1 = ?'',
          [VStr ''2000-05-06 07:08:09.000000'', VStr ''None'', VInt 1, VInt 1])"
proof -
  have made: "ModelMeta_new strict_interpreter ''Event'' Event_body = Inr Event_class"
    by (rule Event_class_made)
  have i1: "Model_init strict_interpreter Event_class [] =
      Inr (Event_instance datetime_min (VInt 0) False)"
    by code_simp
  have q1: "save_query strict_interpreter march_2012 Event_class
       (Event_instance datetime_min (VInt 0) False) =
     Inr (''INSERT INTO Event (created, title) VALUES (?, ?)'',
          [VStr ''2012-03-04 05:06:07.000089'', VStr ''None''])"
    by code_simp
  have s1: "save strict_interpreter march_2012 accepting_engine Event_class
       (Event_instance datetime_min (VInt 0) False) =
     Inr (Event_instance datetime_min (VInt 1) True)"
    by code_simp
  have s2: "save strict_interpreter march_2012 accepting_engine Event_class
       (Event_instance datetime_min (VInt 1) True) = Inl ValueError"
    by code_simp
  have i2: "Model_init strict_interpreter Event_class [(''created'', VDateTime may_2000)] =
     Inr (Event_instance may_2000 (VInt 0) False)"
    by code_simp
  have q2: "save_query strict_interpreter march_2012 Event_class
       (Event_instance may_2000 (VInt 0) False) =
     Inr (''INSERT INTO Event (created, title) VALUES (?, ?)'',
          [VStr ''2012-03-04 05:06:07.000089'', VStr ''None''])"
    by code_simp
  have s3: "save strict_interpreter march_2012 accepting_engine Event_class
       (Event_instance may_2000 (VInt 0) False) =
     Inr (Event_instance may_2000 (VInt 1) True)"
    by code_simp
  have q3: "save_query strict_interpreter march_2012 Event_class
       (Event_instance may_2000 (VInt 1) True) =
     Inr (''UPDATE Event SET created = ? AND title = ? WHERE _rowid_ = ? AND 1 = ?'',
          [VStr ''2000-05-06 07:08:09.000000'', VStr ''None'', VInt 1, VInt 1])"
    by code_simp
  from made i1 q1 s1 s2 i2 q2 s3 q3 show ?thesis by blast
qed

section \<open>The key of a saved instance and of the table definition\<close>








end
